theory Spec2Isabelle
  imports Complex_Main "HOL-Library.AList" "HOL-Library.Stream"
begin

section \<open>Values, errors and the external card library\<close>

text \<open>
  The program keeps cards in two representations. The constructor of \<open>PokerGame\<close>
  builds tokens, Python strings such as \<open>As\<close> or \<open>10h\<close>; the card library the program
  imports works on integer codes. Python is dynamically typed, so both can reach the same
  variable: a card is a value of either kind.
\<close>

datatype card = CardStr string | CardInt int

text \<open>A dictionary key is a Python string or a Python integer.\<close>

datatype key = Name string | Index int

text \<open>The exceptions the modelled code can raise.\<close>

datatype error = AttributeError | TypeError | ValueError | KeyError | IndexError

text \<open>
  \<open>self.deck\<close> holds one of two kinds of object: the Python list of tokens that the
  constructor builds, or an instance of the library's class \<open>Deck\<close>, which \<open>new_game\<close>
  stores. That class has one data attribute, \<open>cards\<close> (a shuffled list of the 52 integer
  codes), and the methods \<open>shuffle\<close>, \<open>draw\<close> and \<open>__str__\<close>; it defines neither
  \<open>__contains__\<close>, \<open>__iter__\<close>, \<open>__getitem__\<close> nor \<open>__len__\<close>, and no \<open>pop\<close> or
  \<open>remove\<close>.
\<close>

datatype deck = CardList "card list" | DeckObject "card list"

text \<open>
  The library's functions are parameters of the model: \<open>Card.new\<close>,
  \<open>Evaluator.evaluate\<close> (a pure function of the hand and the board, which may raise),
  and the attribute \<open>HAND_EVAL\<close> of the evaluator object that
  \<open>calculate_hand_probability\<close> reads: a table from hand types to scores, or
  \<open>None\<close> when the object has no such attribute, as is the case for the library's
  \<open>Evaluator\<close>.
\<close>

record deuces =
  Card_new :: "card \<Rightarrow> error + card"
  evaluate :: "card list \<Rightarrow> card list \<Rightarrow> error + int"
  HAND_EVAL :: "(string \<times> int) list option"

section \<open>The game object and its surroundings\<close>

text \<open>
  The fields of a \<open>PokerGame\<close> instance (the field \<open>evaluator\<close> is the parameter
  above). Dictionaries are association lists in insertion order, as Python keeps them.
\<close>

record game =
  deck :: deck
  num_players :: int
  players_hands :: "(key \<times> card list) list"
  opponents_hands :: "(key \<times> card list) list"
  board :: "card list"
  burned_cards :: "card list"

text \<open>
  What a method can touch besides the object: the console it prints to, and the state of
  the module \<open>random\<close>. The random state is an infinite sequence of draws; one call of
  \<open>random.sample\<close> consumes its head.
\<close>

record world = game +
  stdout :: "string list"
  rng :: "(nat \<times> nat) stream"

subsection \<open>Python primitives\<close>

text \<open>\<open>str(n)\<close> for a natural number, and for a card as an f-string formats it.\<close>

fun str_nat :: "nat \<Rightarrow> string" where
  "str_nat n =
     (if n < 10 then [''0123456789'' ! n]
      else str_nat (n div 10) @ [''0123456789'' ! (n mod 10)])"

declare str_nat.simps [simp del]

definition str_int :: "int \<Rightarrow> string" where
  "str_int i = (if i < 0 then CHR ''-'' # str_nat (nat (- i)) else str_nat (nat i))"

fun str_card :: "card \<Rightarrow> string" where
  "str_card (CardStr s) = s"
| "str_card (CardInt i) = str_int i"

text \<open>\<open>d[k]\<close> on a dictionary raises \<open>KeyError\<close> for a missing key.\<close>

definition getitem :: "(key \<times> 'v) list \<Rightarrow> key \<Rightarrow> error + 'v" where
  "getitem d k = (case map_of d k of None \<Rightarrow> Inl KeyError | Some v \<Rightarrow> Inr v)"

text \<open>
  A list comprehension \<open>[f(x) for x in xs]\<close> whose element expression may raise: the
  first exception ends it.
\<close>

fun comprehension :: "('a \<Rightarrow> error + 'b) \<Rightarrow> 'a list \<Rightarrow> error + 'b list" where
  "comprehension f [] = Inr []"
| "comprehension f (x # xs) =
     (case f x of
        Inl e \<Rightarrow> Inl e
      | Inr y \<Rightarrow> (case comprehension f xs of Inl e \<Rightarrow> Inl e | Inr ys \<Rightarrow> Inr (y # ys)))"

text \<open>
  \<open>card in self.deck\<close>: list membership, or \<open>TypeError\<close> on a \<open>Deck\<close> object (it is
  not iterable).
\<close>

fun deck_contains :: "deck \<Rightarrow> card \<Rightarrow> error + bool" where
  "deck_contains (CardList d) c = Inr (c \<in> set d)"
| "deck_contains (DeckObject cs) c = Inl TypeError"

text \<open>
  \<open>self.deck.remove(card)\<close>: removes the first equal element of a list
  (\<open>ValueError\<close> when there is none); a \<open>Deck\<close> object has no such method.
\<close>

fun deck_remove :: "deck \<Rightarrow> card \<Rightarrow> error + deck" where
  "deck_remove (CardList d) c =
     (if c \<in> set d then Inr (CardList (remove1 c d)) else Inl ValueError)"
| "deck_remove (DeckObject cs) c = Inl AttributeError"

text \<open>
  \<open>remaining_deck.pop()\<close>: takes the last element of a list (\<open>IndexError\<close> on the
  empty list); a \<open>Deck\<close> object has no such method.
\<close>

fun deck_pop :: "deck \<Rightarrow> error + (card \<times> deck)" where
  "deck_pop (CardList d) =
     (if d = [] then Inl IndexError else Inr (last d, CardList (butlast d)))"
| "deck_pop (DeckObject cs) = Inl AttributeError"

text \<open>
  \<open>random.sample(population, 2)\<close>: two elements at distinct positions, in the order
  drawn. The population must be a sequence (\<open>TypeError\<close> for a \<open>Deck\<close> object) of at
  least two elements (\<open>ValueError\<close> otherwise). The pair of numbers taken from the
  random state picks the first position among all, the second among the rest, so every
  pair is a legal draw and every legal draw comes from some pair.
\<close>

fun random_sample :: "deck \<Rightarrow> nat \<times> nat \<Rightarrow> error + card list" where
  "random_sample (DeckObject cs) r = Inl TypeError"
| "random_sample (CardList d) r =
     (if length d < 2 then Inl ValueError
      else
        let i = fst r mod length d;
            rest = take i d @ drop (Suc i) d;
            j = snd r mod length rest
        in Inr [d ! i, rest ! j])"

section \<open>The game state manager\<close>

text \<open>The thirteen ranks and the four suits, in the order of the source's lists.\<close>

definition ranks :: "string list" where
  "ranks = [''2'', ''3'', ''4'', ''5'', ''6'', ''7''] @ [''8'', ''9'', ''10'', ''J'', ''Q'', ''K'', ''A'']"

definition suits :: "string list" where
  "suits = [''h'', ''d'', ''c'', ''s'']"

text \<open>\<open>{f"player{i}": [] for i in range(2, num_players + 1)}\<close>\<close>

definition no_opponent_cards :: "int \<Rightarrow> (key \<times> card list) list" where
  "no_opponent_cards n = map (\<lambda>i. (Name (''player'' @ str_int i), [])) [2..n]"

text \<open>
  The constructor. The deck is \<open>[rank + suit for rank in ranks for suit in suits]\<close>;
  nothing is taken out of it for the hole cards.
\<close>

definition PokerGame :: "int \<Rightarrow> card list \<Rightarrow> game" where
  "PokerGame n hole_cards =
     \<lparr>deck = CardList (concat (map (\<lambda>rank. map (\<lambda>suit. CardStr (rank @ suit)) suits) ranks)),
      num_players = n,
      players_hands = [(Name ''player1'', hole_cards)],
      opponents_hands = no_opponent_cards n,
      board = [],
      burned_cards = []\<rparr>"

text \<open>A freshly started program: the new object, an empty console, a random state.\<close>

definition start :: "int \<Rightarrow> card list \<Rightarrow> (nat \<times> nat) stream \<Rightarrow> world" where
  "start n hole_cards r = game.extend (PokerGame n hole_cards) \<lparr>stdout = [], rng = r\<rparr>"

text \<open>
  \<open>new_game\<close>. The deck becomes \<open>Deck()\<close>, an object of the library; \<open>fresh\<close> is the
  shuffled list of integer codes it holds.
\<close>

definition new_game :: "card list \<Rightarrow> int \<Rightarrow> card list \<Rightarrow> world \<Rightarrow> world" where
  "new_game fresh n hole_cards w =
     w\<lparr>num_players := n,
       players_hands := [(Name ''player1'', hole_cards)],
       opponents_hands := no_opponent_cards n,
       deck := DeckObject fresh,
       board := [],
       burned_cards := []\<rparr>"

definition not_in_deck :: "card \<Rightarrow> string" where
  "not_in_deck c = ''Error: Card '' @ str_card c @ '' is not in the deck.''"

text \<open>
  \<open>update_board\<close>: the loop over the given cards. A method returns the exception it
  raised (or its value) together with the world as it has left it.
\<close>

fun update_board :: "card list \<Rightarrow> world \<Rightarrow> (error + unit) \<times> world" where
  "update_board [] w = (Inr (), w)"
| "update_board (c # cs) w =
     (case deck_contains (deck w) c of
        Inl e \<Rightarrow> (Inl e, w)
      | Inr True \<Rightarrow>
          (let w1 = w\<lparr>board := board w @ [c]\<rparr> in
           case deck_remove (deck w1) c of
             Inl e \<Rightarrow> (Inl e, w1)
           | Inr d \<Rightarrow> update_board cs (w1\<lparr>deck := d\<rparr>))
      | Inr False \<Rightarrow> update_board cs (w\<lparr>stdout := stdout w @ [not_in_deck c]\<rparr>))"

text \<open>\<open>reveal_card\<close> and \<open>add_to_opponent_hand\<close>, with the same presence check.\<close>

definition reveal_card :: "card \<Rightarrow> world \<Rightarrow> (error + unit) \<times> world" where
  "reveal_card c w =
     (case deck_contains (deck w) c of
        Inl e \<Rightarrow> (Inl e, w)
      | Inr True \<Rightarrow>
          (let w1 = w\<lparr>burned_cards := burned_cards w @ [c]\<rparr> in
           case deck_remove (deck w1) c of
             Inl e \<Rightarrow> (Inl e, w1)
           | Inr d \<Rightarrow> (Inr (), w1\<lparr>deck := d\<rparr>))
      | Inr False \<Rightarrow> (Inr (), w\<lparr>stdout := stdout w @ [not_in_deck c]\<rparr>))"

definition add_to_opponent_hand :: "key \<Rightarrow> card \<Rightarrow> world \<Rightarrow> (error + unit) \<times> world" where
  "add_to_opponent_hand player_name c w =
     (case map_of (opponents_hands w) player_name of
        None \<Rightarrow>
          (Inr (), w\<lparr>stdout := stdout w @
             [''Error: Opponent '' @ (case player_name of Name s \<Rightarrow> s | Index i \<Rightarrow> str_int i)
                @ '' does not exist.'']\<rparr>)
      | Some hand \<Rightarrow>
          (case deck_contains (deck w) c of
             Inl e \<Rightarrow> (Inl e, w)
           | Inr True \<Rightarrow>
               (let w1 = w\<lparr>opponents_hands :=
                             AList.update player_name (hand @ [c]) (opponents_hands w)\<rparr> in
                case deck_remove (deck w1) c of
                  Inl e \<Rightarrow> (Inl e, w1)
                | Inr d \<Rightarrow> (Inr (), w1\<lparr>deck := d\<rparr>))
           | Inr False \<Rightarrow> (Inr (), w\<lparr>stdout := stdout w @ [not_in_deck c]\<rparr>)))"

text \<open>
  \<open>[card for card in self.deck if card not in hand]\<close>: a new list; iterating a
  \<open>Deck\<close> object raises.
\<close>

fun deck_without :: "deck \<Rightarrow> card list \<Rightarrow> error + deck" where
  "deck_without (CardList d) hand = Inr (CardList (filter (\<lambda>card. card \<notin> set hand) d))"
| "deck_without (DeckObject cs) hand = Inl TypeError"

definition deal_hole_cards :: "world \<Rightarrow> (error + unit) \<times> world" where
  "deal_hole_cards w =
     (case random_sample (deck w) (shd (rng w)) of
        Inl e \<Rightarrow> (Inl e, w)
      | Inr hand \<Rightarrow>
          (let w1 = w\<lparr>rng := stl (rng w),
                      players_hands := AList.update (Name ''player1'') hand (players_hands w)\<rparr> in
           case deck_without (deck w1) hand of
             Inl e \<Rightarrow> (Inl e, w1)
           | Inr d \<Rightarrow> (Inr (), w1\<lparr>deck := d\<rparr>)))"

text \<open>
  \<open>deal_opponent_hands\<close>: the loop over the opponents' names, then
  \<open>list(self.opponents_hands.values())\<close>, a Python list.
\<close>

fun deal_loop :: "key list \<Rightarrow> world \<Rightarrow> (error + unit) \<times> world" where
  "deal_loop [] w = (Inr (), w)"
| "deal_loop (player_name # names) w =
     (case random_sample (deck w) (shd (rng w)) of
        Inl e \<Rightarrow> (Inl e, w)
      | Inr hand \<Rightarrow>
          (let w1 = w\<lparr>rng := stl (rng w),
                      opponents_hands := AList.update player_name hand (opponents_hands w)\<rparr> in
           case deck_without (deck w1) hand of
             Inl e \<Rightarrow> (Inl e, w1)
           | Inr d \<Rightarrow> deal_loop names (w1\<lparr>deck := d\<rparr>)))"

definition deal_opponent_hands :: "world \<Rightarrow> (error + card list list) \<times> world" where
  "deal_opponent_hands w =
     (case deal_loop (map fst (opponents_hands w)) w of
        (Inl e, w') \<Rightarrow> (Inl e, w')
      | (Inr u, w') \<Rightarrow> (Inr (map snd (opponents_hands w')), w'))"

section \<open>The Monte Carlo simulation engine\<close>

text \<open>
  The inner loop of a trial, the same text in \<open>simulate_remaining_game\<close> and in
  \<open>calculate_hand_probability\<close>:
  \<^verbatim>\<open>for _ in range(5 - len(self.board) - len(self.burned_cards)):
      remaining_board.append(remaining_deck.pop())\<close>
  on the trial's deep copies of the deck and the board. \<open>range(k)\<close> is empty for
  \<open>k \<le> 0\<close>.
\<close>

fun draw_loop :: "nat \<Rightarrow> deck \<Rightarrow> card list \<Rightarrow> error + (deck \<times> card list)" where
  "draw_loop 0 remaining_deck remaining_board = Inr (remaining_deck, remaining_board)"
| "draw_loop (Suc k) remaining_deck remaining_board =
     (case deck_pop remaining_deck of
        Inl e \<Rightarrow> Inl e
      | Inr (c, d) \<Rightarrow> draw_loop k d (remaining_board @ [c]))"

definition simulate_community_cards :: "'a game_scheme \<Rightarrow> error + (deck \<times> card list)" where
  "simulate_community_cards st =
     draw_loop (nat (5 - int (length (board st)) - int (length (burned_cards st))))
       (deck st) (board st)"

text \<open>
  One trial of \<open>simulate_remaining_game\<close>: whether it adds one to \<open>win_count\<close>. The
  trial works on copies and on locals only; it assigns no field of the object.
\<close>

definition simulate_trial :: "deuces \<Rightarrow> 'a game_scheme \<Rightarrow> card list list \<Rightarrow> error + bool" where
  "simulate_trial ev st opponent_hands =
     (case simulate_community_cards st of
        Inl e \<Rightarrow> Inl e
      | Inr (remaining_deck, remaining_board) \<Rightarrow>
     (case comprehension (Card_new ev) (remaining_board @ burned_cards st) of
        Inl e \<Rightarrow> Inl e
      | Inr all_community_cards \<Rightarrow>
     (case getitem (players_hands st) (Name ''player1'') of
        Inl e \<Rightarrow> Inl e
      | Inr hole_cards \<Rightarrow>
     (case comprehension (Card_new ev) hole_cards of
        Inl e \<Rightarrow> Inl e
      | Inr player_hand \<Rightarrow>
     (case evaluate ev player_hand all_community_cards of
        Inl e \<Rightarrow> Inl e
      | Inr player_score \<Rightarrow>
     (case comprehension
             (\<lambda>hand. case comprehension (Card_new ev) hand of
                        Inl e \<Rightarrow> Inl e
                      | Inr h \<Rightarrow> evaluate ev h all_community_cards)
             opponent_hands of
        Inl e \<Rightarrow> Inl e
      | Inr opponent_scores \<Rightarrow>
          Inr (list_all (\<lambda>score. player_score > score) opponent_scores)))))))"

text \<open>
  The lines of that trial after the inner loop, as a function of the board the loop has
  completed: what the trial does with the cards it has drawn.
\<close>

definition showdown :: "deuces \<Rightarrow> 'a game_scheme \<Rightarrow> card list \<Rightarrow> card list list \<Rightarrow> error + bool" where
  "showdown ev st remaining_board opponent_hands =
     (case comprehension (Card_new ev) (remaining_board @ burned_cards st) of
        Inl e \<Rightarrow> Inl e
      | Inr all_community_cards \<Rightarrow>
     (case getitem (players_hands st) (Name ''player1'') of
        Inl e \<Rightarrow> Inl e
      | Inr hole_cards \<Rightarrow>
     (case comprehension (Card_new ev) hole_cards of
        Inl e \<Rightarrow> Inl e
      | Inr player_hand \<Rightarrow>
     (case evaluate ev player_hand all_community_cards of
        Inl e \<Rightarrow> Inl e
      | Inr player_score \<Rightarrow>
     (case comprehension
             (\<lambda>hand. case comprehension (Card_new ev) hand of
                        Inl e \<Rightarrow> Inl e
                      | Inr h \<Rightarrow> evaluate ev h all_community_cards)
             opponent_hands of
        Inl e \<Rightarrow> Inl e
      | Inr opponent_scores \<Rightarrow>
          Inr (list_all (\<lambda>score. player_score > score) opponent_scores))))))"

text \<open>
  The loop \<open>for _ in range(10000)\<close>, by the number of trials still to run. The local
  \<open>opponent_hands\<close> is rebound in each trial to a copy of itself.
\<close>

fun simulate_loop :: "deuces \<Rightarrow> 'a game_scheme \<Rightarrow> card list list \<Rightarrow> nat \<Rightarrow> nat \<Rightarrow> error + nat" where
  "simulate_loop ev st opponent_hands 0 win_count = Inr win_count"
| "simulate_loop ev st opponent_hands (Suc n) win_count =
     (case simulate_trial ev st opponent_hands of
        Inl e \<Rightarrow> Inl e
      | Inr won \<Rightarrow>
          simulate_loop ev st opponent_hands n (if won then win_count + 1 else win_count))"

text \<open>
  \<open>win_count / 10000\<close> is kept as the exact quotient; Python rounds it to a double, and
  the quotients 0 and 1 are doubles.
\<close>

definition simulate_remaining_game :: "deuces \<Rightarrow> card list list \<Rightarrow> 'a game_scheme \<Rightarrow> error + rat" where
  "simulate_remaining_game ev opponent_hands st =
     (case simulate_loop ev st opponent_hands 10000 0 of
        Inl e \<Rightarrow> Inl e
      | Inr win_count \<Rightarrow> Inr (of_nat win_count / 10000))"

text \<open>\<open>xs.values()\<close> on a Python list: a list has no such attribute.\<close>

definition list_values :: "'a list \<Rightarrow> error + 'a list" where
  "list_values xs = Inl AttributeError"

definition calculate_win_probabilities :: "deuces \<Rightarrow> world \<Rightarrow> (error + rat) \<times> world" where
  "calculate_win_probabilities ev w =
     (if length (board w) = 0 \<and> length (burned_cards w) = 0 then
        (case deal_opponent_hands w of
           (Inl e, w') \<Rightarrow> (Inl e, w')
         | (Inr hands, w') \<Rightarrow> (simulate_remaining_game ev hands w', w'))
      else if length (board w) < 5 then
        (case deal_opponent_hands w of
           (Inl e, w') \<Rightarrow> (Inl e, w')
         | (Inr hands, w') \<Rightarrow>
             (case list_values hands of
                Inl e \<Rightarrow> (Inl e, w')
              | Inr vs \<Rightarrow> (simulate_remaining_game ev vs w', w')))
      else
        (case deal_opponent_hands w of
           (Inl e, w') \<Rightarrow> (Inl e, w')
         | (Inr hands, w') \<Rightarrow>
             (case list_values hands of
                Inl e \<Rightarrow> (Inl e, w')
              | Inr vs \<Rightarrow> (simulate_remaining_game ev vs w', w'))))"

text \<open>
  One trial of \<open>calculate_hand_probability\<close>. It draws the community cards from copies,
  as above, but calls \<open>self.deal_opponent_hands()\<close>, which works on the object itself.
  The cards go to the evaluator as they are, without \<open>Card.new\<close>.
\<close>

definition hand_trial :: "deuces \<Rightarrow> int \<Rightarrow> world \<Rightarrow> (error + bool) \<times> world" where
  "hand_trial ev hand_type_score w =
     (case simulate_community_cards w of
        Inl e \<Rightarrow> (Inl e, w)
      | Inr (remaining_deck, remaining_board) \<Rightarrow>
     (let all_community_cards = remaining_board @ burned_cards w in
      case getitem (players_hands w) (Name ''player1'') of
        Inl e \<Rightarrow> (Inl e, w)
      | Inr hole_cards \<Rightarrow>
     (case evaluate ev hole_cards all_community_cards of
        Inl e \<Rightarrow> (Inl e, w)
      | Inr player_score \<Rightarrow>
     (case deal_opponent_hands w of
        (Inl e, w') \<Rightarrow> (Inl e, w')
      | (Inr opponent_hands, w') \<Rightarrow>
     (case comprehension (\<lambda>hand. evaluate ev hand all_community_cards) opponent_hands of
        Inl e \<Rightarrow> (Inl e, w')
      | Inr opponent_scores \<Rightarrow>
          (Inr (list_ex (\<lambda>score. score \<ge> hand_type_score) opponent_scores), w'))))))"

text \<open>The lines of that trial after the inner loop, as a function of the completed board.\<close>

definition hand_showdown :: "deuces \<Rightarrow> int \<Rightarrow> world \<Rightarrow> card list \<Rightarrow> (error + bool) \<times> world" where
  "hand_showdown ev hand_type_score w remaining_board =
     (let all_community_cards = remaining_board @ burned_cards w in
      case getitem (players_hands w) (Name ''player1'') of
        Inl e \<Rightarrow> (Inl e, w)
      | Inr hole_cards \<Rightarrow>
     (case evaluate ev hole_cards all_community_cards of
        Inl e \<Rightarrow> (Inl e, w)
      | Inr player_score \<Rightarrow>
     (case deal_opponent_hands w of
        (Inl e, w') \<Rightarrow> (Inl e, w')
      | (Inr opponent_hands, w') \<Rightarrow>
     (case comprehension (\<lambda>hand. evaluate ev hand all_community_cards) opponent_hands of
        Inl e \<Rightarrow> (Inl e, w')
      | Inr opponent_scores \<Rightarrow>
          (Inr (list_ex (\<lambda>score. score \<ge> hand_type_score) opponent_scores), w')))))"

fun hand_loop :: "deuces \<Rightarrow> int \<Rightarrow> nat \<Rightarrow> nat \<Rightarrow> world \<Rightarrow> (error + nat) \<times> world" where
  "hand_loop ev hand_type_score 0 win_count w = (Inr win_count, w)"
| "hand_loop ev hand_type_score (Suc n) win_count w =
     (case hand_trial ev hand_type_score w of
        (Inl e, w') \<Rightarrow> (Inl e, w')
      | (Inr hit, w') \<Rightarrow>
          hand_loop ev hand_type_score n (if hit then win_count + 1 else win_count) w')"

text \<open>
  The method first reads \<open>evaluator.HAND_EVAL\<close>, which raises \<open>AttributeError\<close> when
  the evaluator has no such attribute. It returns \<open>None\<close> for an unknown hand type,
  after printing.
\<close>

definition calculate_hand_probability :: "deuces \<Rightarrow> string \<Rightarrow> world \<Rightarrow> (error + rat option) \<times> world" where
  "calculate_hand_probability ev hand_type w =
     (case HAND_EVAL ev of
        None \<Rightarrow> (Inl AttributeError, w)
      | Some table \<Rightarrow>
     (case map_of table hand_type of
        None \<Rightarrow>
          (Inr None, w\<lparr>stdout := stdout w @
             [''Error: Invalid hand type '' @ [CHR 0x27] @ hand_type @ [CHR 0x27]
                @ ''. Please enter a valid hand type.'']\<rparr>)
      | Some hand_type_score \<Rightarrow>
          (case hand_loop ev hand_type_score 10000 0 w of
             (Inl e, w') \<Rightarrow> (Inl e, w')
           | (Inr win_count, w') \<Rightarrow> (Inr (Some (of_nat win_count / 10000)), w'))))"

section \<open>The outs enumerator\<close>

text \<open>\<open>itertools.combinations(xs, 2)\<close>: the pairs of positions \<open>i < j\<close>, in order.\<close>

fun combinations2 :: "'a list \<Rightarrow> ('a \<times> 'a) list" where
  "combinations2 [] = []"
| "combinations2 (x # xs) = map (Pair x) xs @ combinations2 xs"

text \<open>
  The loop of \<open>get_beating_hands\<close>. The player's cards are read as
  \<open>self.players_hands[0]\<close>, with the integer key 0.
\<close>

fun beating_loop :: "deuces \<Rightarrow> 'a game_scheme \<Rightarrow> (card \<times> card) list \<Rightarrow> card list list \<Rightarrow> error + card list list" where
  "beating_loop ev st [] beating_hands = Inr beating_hands"
| "beating_loop ev st (combo # combos) beating_hands =
     (let opponent_hand = [fst combo, snd combo] @ board st in
      case evaluate ev opponent_hand (board st) of
        Inl e \<Rightarrow> Inl e
      | Inr opponent_score \<Rightarrow>
     (case getitem (players_hands st) (Index 0) of
        Inl e \<Rightarrow> Inl e
      | Inr hole_cards \<Rightarrow>
     (case evaluate ev (hole_cards @ board st) (board st) of
        Inl e \<Rightarrow> Inl e
      | Inr player_score \<Rightarrow>
          beating_loop ev st combos
            (if opponent_score > player_score
             then beating_hands @ [[fst combo, snd combo]] else beating_hands))))"

text \<open>The combinations are taken from \<open>self.deck.cards\<close>; a Python list has no \<open>cards\<close>.\<close>

definition get_beating_hands :: "deuces \<Rightarrow> 'a game_scheme \<Rightarrow> error + card list list" where
  "get_beating_hands ev st =
     (case deck st of
        CardList d \<Rightarrow> Inl AttributeError
      | DeckObject cards \<Rightarrow> beating_loop ev st (combinations2 cards) [])"

section \<open>A stand-in for the card library\<close>

text \<open>
  To run the model on a concrete game: \<open>Card.new\<close> keeps the token as the card's code,
  a hand that holds the ace of spades scores 1 and any other hand 2 (lower is stronger, as
  in the library), and, as in the library, the evaluator has no attribute \<open>HAND_EVAL\<close>.
\<close>

definition ace_evaluator :: deuces where
  "ace_evaluator =
     \<lparr>Card_new = Inr,
      evaluate = (\<lambda>hand board. Inr (if CardStr ''As'' \<in> set hand then 1 else 2)),
      HAND_EVAL = None\<rparr>"

section \<open>Properties of the loops\<close>


lemma simulate_loop_const:
  "simulate_loop ev st opps n wc =
     (if n = 0 then Inr wc
      else case simulate_trial ev st opps of
             Inl e \<Rightarrow> Inl e
           | Inr won \<Rightarrow> Inr (if won then wc + n else wc))"
  by (induction n arbitrary: wc) (auto split: sum.splits)

lemma simulate_remaining_game_trial:
  "simulate_remaining_game ev opps st =
     (case simulate_trial ev st opps of
        Inl e \<Rightarrow> Inl e
      | Inr won \<Rightarrow> Inr (if won then 1 else 0))"
  by (simp add: simulate_remaining_game_def simulate_loop_const split: sum.splits)

lemma comprehension_total:
  "comprehension (\<lambda>x. Inr (f x)) xs = Inr (map f xs)"
  by (induction xs) auto

lemma draw_loop_Inr:
  "draw_loop k dk b = Inr (dk', b') \<Longrightarrow>
     \<exists>drawn. b' = b @ drawn \<and> length drawn = k \<and>
       (drawn = [] \<longrightarrow> dk' = dk) \<and>
       (drawn \<noteq> [] \<longrightarrow> (\<exists>rest. dk = CardList (rest @ rev drawn) \<and> dk' = CardList rest))"
proof (induction k arbitrary: dk b)
  case 0
  then show ?case by simp
next
  case (Suc k)
  from Suc.prems obtain c d where pop: "deck_pop dk = Inr (c, d)"
    and rec: "draw_loop k d (b @ [c]) = Inr (dk', b')"
    by (auto split: sum.splits)
  from pop obtain dl where dk: "dk = CardList dl" and ne: "dl \<noteq> []"
    and c: "c = last dl" and d: "d = CardList (butlast dl)"
    by (cases dk) (auto split: if_splits)
  from Suc.IH [OF rec] obtain drawn where b': "b' = (b @ [c]) @ drawn"
    and len: "length drawn = k"
    and e: "drawn = [] \<longrightarrow> dk' = d"
    and n: "drawn \<noteq> [] \<longrightarrow> (\<exists>rest. d = CardList (rest @ rev drawn) \<and> dk' = CardList rest)"
    by blast
  have dl: "dl = butlast dl @ [c]" using ne c by simp
  show ?case
  proof (rule exI [of _ "c # drawn"], intro conjI impI)
    show "b' = b @ c # drawn" using b' by simp
    show "length (c # drawn) = Suc k" using len by simp
    show "dk' = dk" if "c # drawn = []" using that by simp
    show "\<exists>rest. dk = CardList (rest @ rev (c # drawn)) \<and> dk' = CardList rest"
    proof (cases "drawn = []")
      case True
      with e d have "dk' = CardList (butlast dl)" by simp
      moreover have "dk = CardList (butlast dl @ rev (c # drawn))"
        using True dk dl by simp
      ultimately show ?thesis by blast
    next
      case False
      with n d obtain rest where r: "butlast dl = rest @ rev drawn" and r': "dk' = CardList rest"
        by auto
      have "dk = CardList (rest @ rev (c # drawn))"
        using dk dl r by simp
      with r' show ?thesis by blast
    qed
  qed
qed

lemma draw_loop_enough:
  "k \<le> length d \<Longrightarrow>
     draw_loop k (CardList d) b =
       Inr (CardList (take (length d - k) d), b @ rev (drop (length d - k) d))"
proof (induction k arbitrary: d b)
  case 0
  then show ?case by simp
next
  case (Suc k)
  then have ne: "d \<noteq> []" by auto
  have k: "k \<le> length (butlast d)" using Suc.prems by simp
  have 1: "take (length d - Suc k) d = take (length (butlast d) - k) (butlast d)"
    using Suc.prems by (simp add: take_butlast)
  have "drop (length d - Suc k) d = drop (length d - Suc k) (butlast d @ [last d])"
    using ne by simp
  also have "\<dots> = drop (length d - Suc k) (butlast d) @ [last d]"
    using Suc.prems by simp
  finally have 2: "rev (drop (length d - Suc k) d) = last d # rev (drop (length (butlast d) - k) (butlast d))"
    by simp
  show ?case using ne Suc.IH [OF k] 1 2 by simp
qed

lemma deal_loop_frame:
  "deal_loop names w = (r, w') \<Longrightarrow>
     board w' = board w \<and> burned_cards w' = burned_cards w \<and>
     players_hands w' = players_hands w \<and> num_players w' = num_players w \<and>
     stdout w' = stdout w"
proof (induction names arbitrary: w)
  case Nil
  then show ?case by simp
next
  case (Cons a names)
  then show ?case
    by (auto split: sum.splits simp: Let_def dest!: Cons.IH)
qed

lemma deal_opponent_hands_frame:
  "deal_opponent_hands w = (r, w') \<Longrightarrow>
     board w' = board w \<and> burned_cards w' = burned_cards w \<and>
     players_hands w' = players_hands w \<and> num_players w' = num_players w \<and>
     stdout w' = stdout w"
  by (auto simp: deal_opponent_hands_def split: prod.splits sum.splits dest!: deal_loop_frame)

lemma deal_opponent_hands_nobody:
  "opponents_hands w = [] \<Longrightarrow> deal_opponent_hands w = (Inr [], w)"
  by (simp add: deal_opponent_hands_def)

lemma calculate_win_probabilities_state:
  "snd (calculate_win_probabilities ev w) = snd (deal_opponent_hands w)"
  by (auto simp: calculate_win_probabilities_def list_values_def split: prod.splits sum.splits)

lemma hand_trial_frame:
  "hand_trial ev s w = (r, w') \<Longrightarrow>
     board w' = board w \<and> burned_cards w' = burned_cards w \<and>
     players_hands w' = players_hands w \<and> num_players w' = num_players w \<and>
     stdout w' = stdout w"
  by (auto simp: hand_trial_def Let_def split: prod.splits sum.splits dest!: deal_opponent_hands_frame)

lemma hand_trial_nobody:
  "opponents_hands w = [] \<Longrightarrow> snd (hand_trial ev s w) = w"
  by (auto simp: hand_trial_def Let_def deal_opponent_hands_nobody split: prod.splits sum.splits)

lemma hand_loop_frame:
  "hand_loop ev s n wc w = (r, w') \<Longrightarrow>
     board w' = board w \<and> burned_cards w' = burned_cards w \<and>
     players_hands w' = players_hands w \<and> num_players w' = num_players w \<and>
     stdout w' = stdout w"
proof (induction n arbitrary: wc w)
  case 0
  then show ?case by simp
next
  case (Suc n)
  show ?case
  proof (cases "hand_trial ev s w")
    case (Pair a w1)
    note f = hand_trial_frame [OF Pair]
    show ?thesis
    proof (cases a)
      case (Inl e)
      with Pair Suc.prems f show ?thesis by simp
    next
      case (Inr hit)
      with Pair Suc.prems have "hand_loop ev s n (if hit then wc + 1 else wc) w1 = (r, w')"
        by simp
      from Suc.IH [OF this] f show ?thesis by simp
    qed
  qed
qed

lemma hand_loop_nobody:
  "opponents_hands w = [] \<Longrightarrow> snd (hand_loop ev s n wc w) = w"
proof (induction n arbitrary: wc)
  case 0
  then show ?case by simp
next
  case (Suc n)
  from hand_trial_nobody [OF Suc.prems, of ev s]
  obtain a where "hand_trial ev s w = (a, w)" by (cases "hand_trial ev s w") auto
  then show ?case using Suc by (cases a) auto
qed

lemma update_board_append:
  "update_board (xs @ ys) w =
     (case update_board xs w of
        (Inl e, w1) \<Rightarrow> (Inl e, w1)
      | (Inr u, w1) \<Rightarrow> update_board ys w1)"
  by (induction xs arbitrary: w) (auto split: sum.splits bool.splits prod.splits simp: Let_def)

lemma update_board_list_deck:
  "deck w = CardList d \<Longrightarrow>
     fst (update_board cs w) = Inr () \<and> (\<exists>d'. deck (snd (update_board cs w)) = CardList d')"
  by (induction cs arbitrary: w d) (auto split: sum.splits bool.splits prod.splits simp: Let_def)

lemma PokerGame_deck:
  "deck (PokerGame n hole_cards) = CardList (map CardStr
     [''2h'', ''2d'', ''2c'', ''2s'', ''3h'', ''3d'', ''3c'', ''3s'', ''4h'', ''4d'', ''4c'', ''4s'',
      ''5h'', ''5d'', ''5c'', ''5s'', ''6h'', ''6d'', ''6c'', ''6s'', ''7h'', ''7d'', ''7c'', ''7s'',
      ''8h'', ''8d'', ''8c'', ''8s'', ''9h'', ''9d'', ''9c'', ''9s'', ''10h'', ''10d'', ''10c'', ''10s'',
      ''Jh'', ''Jd'', ''Jc'', ''Js'', ''Qh'', ''Qd'', ''Qc'', ''Qs'', ''Kh'', ''Kd'', ''Kc'', ''Ks'',
      ''Ah'', ''Ad'', ''Ac'', ''As''])"
  by (simp add: PokerGame_def ranks_def suits_def)

lemma calculate_hand_probability_frame:
  "calculate_hand_probability ev hand_type w = (r, w') \<Longrightarrow>
     board w' = board w \<and> burned_cards w' = burned_cards w \<and>
     players_hands w' = players_hands w \<and> num_players w' = num_players w"
  by (auto simp: calculate_hand_probability_def split: option.splits prod.splits sum.splits
      dest!: hand_loop_frame)

lemma calculate_hand_probability_nobody:
  assumes "opponents_hands w = []"
  shows "deck (snd (calculate_hand_probability ev hand_type w)) = deck w \<and>
         opponents_hands (snd (calculate_hand_probability ev hand_type w)) = []"
proof (cases "HAND_EVAL ev")
  case None
  then show ?thesis using assms by (simp add: calculate_hand_probability_def)
next
  case (Some table)
  show ?thesis
  proof (cases "map_of table hand_type")
    case None
    then show ?thesis using Some assms by (simp add: calculate_hand_probability_def)
  next
    case (Some s)
    from hand_loop_nobody [OF assms, of ev s 10000 0]
    obtain a where "hand_loop ev s 10000 0 w = (a, w)"
      by (cases "hand_loop ev s 10000 0 w") auto
    then show ?thesis using Some \<open>HAND_EVAL ev = Some table\<close> assms
      by (cases a) (simp_all add: calculate_hand_probability_def)
  qed
qed

lemma draw_loop_short:
  "length d < k \<Longrightarrow> draw_loop k (CardList d) b = Inl IndexError"
proof (induction k arbitrary: d b)
  case 0
  then show ?case by simp
next
  case (Suc k)
  show ?case
  proof (cases "d = []")
    case True
    then show ?thesis by simp
  next
    case False
    then have "length (butlast d) < k" using Suc.prems by (cases d) auto
    from Suc.IH [OF this] False show ?thesis by simp
  qed
qed

lemma simulate_trial_showdown:
  "simulate_trial ev st opponent_hands =
     (case simulate_community_cards st of
        Inl e \<Rightarrow> Inl e
      | Inr (remaining_deck, remaining_board) \<Rightarrow> showdown ev st remaining_board opponent_hands)"
  by (simp add: simulate_trial_def showdown_def split: sum.splits prod.splits)

lemma hand_trial_showdown:
  "hand_trial ev s w =
     (case simulate_community_cards w of
        Inl e \<Rightarrow> (Inl e, w)
      | Inr (remaining_deck, remaining_board) \<Rightarrow> hand_showdown ev s w remaining_board)"
  by (simp add: hand_trial_def hand_showdown_def split: sum.splits prod.splits)

lemma simulate_community_cards_list:
  "deck st = CardList d \<Longrightarrow>
   simulate_community_cards st =
     (if nat (5 - int (length (board st)) - int (length (burned_cards st))) \<le> length d
      then Inr (CardList (take (length d
                  - nat (5 - int (length (board st)) - int (length (burned_cards st)))) d),
                board st @ rev (drop (length d
                  - nat (5 - int (length (board st)) - int (length (burned_cards st)))) d))
      else Inl IndexError)"
  by (simp add: simulate_community_cards_def draw_loop_enough draw_loop_short)

lemma simulate_community_cards_object:
  "deck st = DeckObject cards \<Longrightarrow>
   simulate_community_cards st =
     (if nat (5 - int (length (board st)) - int (length (burned_cards st))) = 0
      then Inr (deck st, board st) else Inl AttributeError)"
  by (cases "nat (5 - int (length (board st)) - int (length (burned_cards st)))")
    (simp_all add: simulate_community_cards_def)

lemma comprehension_all:
  "\<forall>x \<in> set xs. f x = Inr (g x) \<Longrightarrow> comprehension f xs = Inr (map g xs)"
  by (induction xs) auto

lemma random_sample_in_deck:
  "random_sample dk r = Inr hand \<Longrightarrow> \<exists>d c. dk = CardList d \<and> c \<in> set d \<and> c \<in> set hand"
proof (cases dk)
  case (CardList d)
  assume a: "random_sample dk r = Inr hand"
  with CardList have 2: "\<not> length d < 2" by (auto split: if_splits)
  then have "0 < length d" by linarith
  then have "fst r mod length d < length d" by simp
  then have "d ! (fst r mod length d) \<in> set d" by simp
  moreover have "d ! (fst r mod length d) \<in> set hand"
    using a CardList 2 by (auto simp: Let_def)
  ultimately show ?thesis using CardList by blast
next
  case (DeckObject cs)
  assume "random_sample dk r = Inr hand"
  with DeckObject show ?thesis by simp
qed

lemma deal_loop_shrinks:
  "deal_loop names w = (Inr u, w') \<Longrightarrow> names \<noteq> [] \<Longrightarrow>
     \<exists>d d'. deck w = CardList d \<and> deck w' = CardList d' \<and> length d' < length d"
proof (induction names arbitrary: w)
  case Nil
  then show ?case by simp
next
  case (Cons player_name names)
  from Cons.prems(1) obtain hand where h: "random_sample (deck w) (shd (rng w)) = Inr hand"
    by (auto split: sum.splits)
  from random_sample_in_deck [OF h] obtain d c where d: "deck w = CardList d"
    and c: "c \<in> set d" "c \<in> set hand" by blast
  let ?d2 = "filter (\<lambda>card. card \<notin> set hand) d"
  let ?w2 = "w\<lparr>rng := stl (rng w),
              opponents_hands := AList.update player_name hand (opponents_hands w),
              deck := CardList ?d2\<rparr>"
  have rec: "deal_loop names ?w2 = (Inr u, w')"
    using Cons.prems(1) h d by (simp add: Let_def)
  have less: "length ?d2 < length d"
    using c by (intro length_filter_less [of c]) auto
  show ?case
  proof (cases "names = []")
    case True
    with rec have "w' = ?w2" by simp
    then have "deck w' = CardList ?d2" by simp
    with d less show ?thesis by blast
  next
    case False
    from Cons.IH [OF rec False] obtain d' where "deck w' = CardList d'"
      and "length d' < length ?d2" by auto
    with d less show ?thesis by (intro exI [of _ d] exI [of _ d']) simp
  qed
qed

lemma update_not_Nil: "AList.update k v al \<noteq> []"
  by (cases al) auto

lemma deal_loop_keeps_opponents:
  "deal_loop names w = (r, w') \<Longrightarrow> opponents_hands w \<noteq> [] \<Longrightarrow> opponents_hands w' \<noteq> []"
proof (induction names arbitrary: w)
  case Nil
  then show ?case by simp
next
  case (Cons a names)
  show ?case
  proof (cases "random_sample (deck w) (shd (rng w))")
    case (Inl e)
    with Cons.prems show ?thesis by simp
  next
    case (Inr hand)
    let ?w1 = "w\<lparr>rng := stl (rng w),
                opponents_hands := AList.update a hand (opponents_hands w)\<rparr>"
    show ?thesis
    proof (cases "deck_without (deck ?w1) hand")
      case (Inl e)
      with Inr Cons.prems(1) have "w' = ?w1" by (simp add: Let_def)
      then show ?thesis by (simp add: update_not_Nil)
    next
      case (Inr d)
      with \<open>random_sample (deck w) (shd (rng w)) = Inr hand\<close> Cons.prems(1)
      have "deal_loop names (?w1\<lparr>deck := d\<rparr>) = (r, w')" by (simp add: Let_def)
      from Cons.IH [OF this] show ?thesis by (simp add: update_not_Nil)
    qed
  qed
qed

lemma deal_opponent_hands_shrinks:
  assumes "deal_opponent_hands w = (Inr hands, w')" and "opponents_hands w \<noteq> []"
  shows "\<exists>d d'. deck w = CardList d \<and> deck w' = CardList d' \<and> length d' < length d"
    and "opponents_hands w' \<noteq> []"
proof -
  from assms(1) obtain u where l: "deal_loop (map fst (opponents_hands w)) w = (Inr u, w')"
    by (auto simp: deal_opponent_hands_def split: prod.splits sum.splits)
  from deal_loop_shrinks [OF l] assms(2)
  show "\<exists>d d'. deck w = CardList d \<and> deck w' = CardList d' \<and> length d' < length d" by simp
  from deal_loop_keeps_opponents [OF l assms(2)] show "opponents_hands w' \<noteq> []" .
qed

lemma hand_trial_shrinks:
  assumes "hand_trial ev s w = (Inr hit, w')" and "opponents_hands w \<noteq> []"
  shows "(\<exists>d d'. deck w = CardList d \<and> deck w' = CardList d' \<and> length d' < length d) \<and>
         opponents_hands w' \<noteq> []"
proof -
  from assms(1) obtain hands where "deal_opponent_hands w = (Inr hands, w')"
    by (auto simp: hand_trial_def Let_def split: prod.splits sum.splits)
  from deal_opponent_hands_shrinks [OF this assms(2)] show ?thesis by blast
qed

lemma hand_loop_needs_cards:
  "hand_loop ev s n wc w = (Inr r, w') \<Longrightarrow> opponents_hands w \<noteq> [] \<Longrightarrow> 0 < n \<Longrightarrow>
     \<exists>d. deck w = CardList d \<and> n \<le> length d"
proof (induction n arbitrary: wc w)
  case 0
  then show ?case by simp
next
  case (Suc n)
  from Suc.prems(1) obtain hit w1 where t: "hand_trial ev s w = (Inr hit, w1)"
    and rec: "hand_loop ev s n (if hit then wc + 1 else wc) w1 = (Inr r, w')"
    by (auto split: prod.splits sum.splits)
  from hand_trial_shrinks [OF t Suc.prems(2)] obtain d d1 where d: "deck w = CardList d"
    and d1: "deck w1 = CardList d1" and less: "length d1 < length d"
    and o: "opponents_hands w1 \<noteq> []" by blast
  show ?case
  proof (cases "n = 0")
    case True
    with d less show ?thesis by auto
  next
    case False
    with Suc.IH [OF rec o] d1 have "n \<le> length d1" by auto
    with d less show ?thesis by auto
  qed
qed

lemma calculate_hand_probability_returns:
  assumes "fst (calculate_hand_probability ev hand_type w) = Inr r"
    and "case deck w of CardList d \<Rightarrow> length d < 10000 | DeckObject cs \<Rightarrow> True"
  shows "deck (snd (calculate_hand_probability ev hand_type w)) = deck w \<and>
         opponents_hands (snd (calculate_hand_probability ev hand_type w)) = opponents_hands w"
proof (cases "opponents_hands w = []")
  case True
  with calculate_hand_probability_nobody [OF True, of ev hand_type] show ?thesis by simp
next
  case False
  from assms(1) obtain table where table: "HAND_EVAL ev = Some table"
    by (cases "HAND_EVAL ev") (auto simp: calculate_hand_probability_def)
  show ?thesis
  proof (cases "map_of table hand_type")
    case None
    with table show ?thesis by (simp add: calculate_hand_probability_def)
  next
    case (Some s)
    with table assms(1) obtain wc w' where "hand_loop ev s 10000 0 w = (Inr wc, w')"
      by (auto simp: calculate_hand_probability_def split: prod.splits sum.splits)
    from hand_loop_needs_cards [OF this False] obtain d where "deck w = CardList d"
      and "10000 \<le> length d" by auto
    with assms(2) show ?thesis by simp
  qed
qed

lemma calculate_win_probabilities_deals:
  assumes "fst (calculate_win_probabilities ev w) = Inr p" and "opponents_hands w \<noteq> []"
  shows "deck (snd (calculate_win_probabilities ev w)) \<noteq> deck w"
proof -
  from assms(1) obtain hands w' where d: "deal_opponent_hands w = (Inr hands, w')"
    by (cases "deal_opponent_hands w")
      (auto simp: calculate_win_probabilities_def list_values_def split: if_splits sum.splits)
  from deal_opponent_hands_shrinks(1) [OF d assms(2)]
  have "deck w' \<noteq> deck w" by auto
  with d show ?thesis by (simp add: calculate_win_probabilities_state)
qed

section \<open>Concrete games\<close>

lemma start_fields:
  "deck (start n h r) = deck (PokerGame n h)"
  "board (start n h r) = []"
  "burned_cards (start n h r) = []"
  "players_hands (start n h r) = [(Name ''player1'', h)]"
  "opponents_hands (start n h r) = no_opponent_cards n"
  "num_players (start n h r) = n"
  "stdout (start n h r) = []"
  "rng (start n h r) = r"
  by (simp_all add: start_def PokerGame_def game.defs world.defs)

lemma PokerGame_fields:
  "board (PokerGame n h) = []"
  "burned_cards (PokerGame n h) = []"
  "players_hands (PokerGame n h) = [(Name ''player1'', h)]"
  "opponents_hands (PokerGame n h) = no_opponent_cards n"
  "num_players (PokerGame n h) = n"
  by (simp_all add: PokerGame_def)

text \<open>Before any card is known, a trial puts the last five cards of the deck on its board.\<close>

lemma first_draw:
  "deck st = deck (PokerGame n h) \<Longrightarrow> board st = [] \<Longrightarrow> burned_cards st = [] \<Longrightarrow>
   simulate_community_cards st =
     Inr (CardList (map CardStr
     [''2h'', ''2d'', ''2c'', ''2s'', ''3h'', ''3d'', ''3c'', ''3s'', ''4h'', ''4d'', ''4c'', ''4s'',
      ''5h'', ''5d'', ''5c'', ''5s'', ''6h'', ''6d'', ''6c'', ''6s'', ''7h'', ''7d'', ''7c'', ''7s'',
      ''8h'', ''8d'', ''8c'', ''8s'', ''9h'', ''9d'', ''9c'', ''9s'', ''10h'', ''10d'', ''10c'', ''10s'',
      ''Jh'', ''Jd'', ''Jc'', ''Js'', ''Qh'', ''Qd'', ''Qc'', ''Qs'', ''Kh'', ''Kd'', ''Kc'']),
      map CardStr [''As'', ''Ac'', ''Ad'', ''Ah'', ''Ks''])"
  by (simp add: simulate_community_cards_def PokerGame_deck draw_loop_enough)

text \<open>
  A two-player game in which \<open>random.sample\<close> picks the first card, then the first of
  the rest: the opponent gets the two of hearts and the two of diamonds.
\<close>

lemma first_deal:
  "deal_opponent_hands (start 2 [CardStr ''Kh'', CardStr ''7d''] (sconst (0, 0))) =
     (Inr [[CardStr ''2h'', CardStr ''2d'']],
      (start 2 [CardStr ''Kh'', CardStr ''7d''] (sconst (0, 0)))
        \<lparr>opponents_hands := [(Name ''player2'', [CardStr ''2h'', CardStr ''2d''])],
         deck := CardList (map CardStr
     [''2c'', ''2s'', ''3h'', ''3d'', ''3c'', ''3s'', ''4h'', ''4d'', ''4c'', ''4s'',
      ''5h'', ''5d'', ''5c'', ''5s'', ''6h'', ''6d'', ''6c'', ''6s'', ''7h'', ''7d'', ''7c'', ''7s'',
      ''8h'', ''8d'', ''8c'', ''8s'', ''9h'', ''9d'', ''9c'', ''9s'', ''10h'', ''10d'', ''10c'', ''10s'',
      ''Jh'', ''Jd'', ''Jc'', ''Js'', ''Qh'', ''Qd'', ''Qc'', ''Qs'', ''Kh'', ''Kd'', ''Kc'', ''Ks'',
      ''Ah'', ''Ad'', ''Ac'', ''As''])\<rparr>)"
  by (simp add: deal_opponent_hands_def start_fields PokerGame_deck no_opponent_cards_def
      str_int_def str_nat.simps upto.simps Let_def)

lemma first_estimate:
  "fst (calculate_win_probabilities ace_evaluator
          (start 2 [CardStr ''Kh'', CardStr ''7d''] (sconst (0, 0)))) = Inr 0"
proof -
  let ?w = "start 2 [CardStr ''Kh'', CardStr ''7d''] (sconst (0, 0))"
  let ?w' = "snd (deal_opponent_hands ?w)"
  have sc: "simulate_community_cards ?w' =
     Inr (CardList (map CardStr
     [''2c'', ''2s'', ''3h'', ''3d'', ''3c'', ''3s'', ''4h'', ''4d'', ''4c'', ''4s'',
      ''5h'', ''5d'', ''5c'', ''5s'', ''6h'', ''6d'', ''6c'', ''6s'', ''7h'', ''7d'', ''7c'', ''7s'',
      ''8h'', ''8d'', ''8c'', ''8s'', ''9h'', ''9d'', ''9c'', ''9s'', ''10h'', ''10d'', ''10c'', ''10s'',
      ''Jh'', ''Jd'', ''Jc'', ''Js'', ''Qh'', ''Qd'', ''Qc'', ''Qs'', ''Kh'', ''Kd'', ''Kc'']),
      map CardStr [''As'', ''Ac'', ''Ad'', ''Ah'', ''Ks''])"
    by (simp add: first_deal simulate_community_cards_def start_fields draw_loop_enough)
  have "simulate_trial ace_evaluator ?w' [[CardStr ''2h'', CardStr ''2d'']] = Inr False"
    by (simp add: simulate_trial_def sc)
      (simp add: first_deal start_fields ace_evaluator_def getitem_def)
  then show ?thesis
    by (simp add: calculate_win_probabilities_def start_fields simulate_remaining_game_trial
        first_deal)
qed

text \<open>The same game with kings in hand, after a flop.\<close>

lemma flop_state:
  "update_board [CardStr ''2c'', CardStr ''7h'', CardStr ''9d'']
     (start 2 [CardStr ''Kh'', CardStr ''Kd''] (sconst (0, 0))) =
   (Inr (), (start 2 [CardStr ''Kh'', CardStr ''Kd''] (sconst (0, 0)))
      \<lparr>board := [CardStr ''2c'', CardStr ''7h'', CardStr ''9d''],
       deck := CardList (map CardStr
     [''2h'', ''2d'', ''2s'', ''3h'', ''3d'', ''3c'', ''3s'', ''4h'', ''4d'', ''4c'', ''4s'',
      ''5h'', ''5d'', ''5c'', ''5s'', ''6h'', ''6d'', ''6c'', ''6s'', ''7d'', ''7c'', ''7s'',
      ''8h'', ''8d'', ''8c'', ''8s'', ''9h'', ''9c'', ''9s'', ''10h'', ''10d'', ''10c'', ''10s'',
      ''Jh'', ''Jd'', ''Jc'', ''Js'', ''Qh'', ''Qd'', ''Qc'', ''Qs'', ''Kh'', ''Kd'', ''Kc'', ''Ks'',
      ''Ah'', ''Ad'', ''Ac'', ''As''])\<rparr>)"
  by (simp add: start_fields PokerGame_deck)

section \<open>The claims\<close>

text \<open>
  Claim C1. A trial of \<open>simulate_remaining_game\<close> should be counted as a win exactly
  when the player's score is strictly lower than every opponent's score, lower being
  stronger. The code tests \<open>player_score > score\<close>: whenever the trial gets its scores,
  it is counted exactly when every opponent's score is strictly lower than the player's,
  and the value returned is 1 in that case and 0 otherwise. A player who is strictly
  stronger than at least one opponent is never counted as the winner.
\<close>

theorem simulate_trial_counts_higher_score:
  assumes "simulate_community_cards st = Inr (remaining_deck, remaining_board)"
    and "comprehension (Card_new ev) (remaining_board @ burned_cards st) = Inr all_community_cards"
    and "getitem (players_hands st) (Name ''player1'') = Inr hole_cards"
    and "comprehension (Card_new ev) hole_cards = Inr player_hand"
    and "evaluate ev player_hand all_community_cards = Inr player_score"
    and "comprehension
           (\<lambda>hand. case comprehension (Card_new ev) hand of
                      Inl e \<Rightarrow> Inl e
                    | Inr h \<Rightarrow> evaluate ev h all_community_cards)
           opponent_hands = Inr opponent_scores"
  shows "simulate_trial ev st opponent_hands =
           Inr (list_all (\<lambda>score. score < player_score) opponent_scores) \<and>
         simulate_remaining_game ev opponent_hands st =
           Inr (if list_all (\<lambda>score. score < player_score) opponent_scores then 1 else 0)"
proof -
  have "simulate_trial ev st opponent_hands =
           Inr (list_all (\<lambda>score. score < player_score) opponent_scores)"
    using assms by (simp add: simulate_trial_def)
  then show ?thesis by (simp add: simulate_remaining_game_trial)
qed

text \<open>
  The player holds the ace of spades and scores 1, the opponent scores 2: the player is
  the stronger one, no trial is counted, and the probability returned is 0.
\<close>

theorem simulate_trial_counts_higher_score_witness:
  "simulate_trial ace_evaluator (PokerGame 2 [CardStr ''As'', CardStr ''7d''])
       [[CardStr ''2h'', CardStr ''3h'']] = Inr (list_all (\<lambda>score. score < 1) [2::int]) \<and>
   simulate_remaining_game ace_evaluator [[CardStr ''2h'', CardStr ''3h'']]
       (PokerGame 2 [CardStr ''As'', CardStr ''7d'']) = Inr 0"
proof -
  let ?st = "PokerGame 2 [CardStr ''As'', CardStr ''7d'']"
  let ?cc = "map CardStr [''As'', ''Ac'', ''Ad'', ''Ah'', ''Ks'']"
  note d = first_draw [of ?st 2 "[CardStr ''As'', CardStr ''7d'']",
      OF refl PokerGame_fields(1) PokerGame_fields(2)]
  have c: "comprehension (Card_new ace_evaluator) (?cc @ burned_cards ?st) = Inr ?cc"
    by (simp add: ace_evaluator_def PokerGame_fields)
  have g: "getitem (players_hands ?st) (Name ''player1'') = Inr [CardStr ''As'', CardStr ''7d'']"
    by (simp add: getitem_def PokerGame_fields)
  have p: "comprehension (Card_new ace_evaluator) [CardStr ''As'', CardStr ''7d''] =
      Inr [CardStr ''As'', CardStr ''7d'']"
    by (simp add: ace_evaluator_def)
  have e: "evaluate ace_evaluator [CardStr ''As'', CardStr ''7d''] ?cc = Inr 1"
    by (simp add: ace_evaluator_def)
  have o: "comprehension
           (\<lambda>hand. case comprehension (Card_new ace_evaluator) hand of
                      Inl e \<Rightarrow> Inl e
                    | Inr h \<Rightarrow> evaluate ace_evaluator h ?cc)
           [[CardStr ''2h'', CardStr ''3h'']] = Inr [2]"
    by (simp add: ace_evaluator_def)
  show ?thesis
    using simulate_trial_counts_higher_score [OF d c g p e o] by simp
qed

text \<open>
  Claim C2. In every reachable state the deck, the player's hand, the opponents' hands,
  the board and the burned cards should be pairwise disjoint and make up the 52 cards.
  Right after construction the deck holds all 52 distinct tokens, the player's two hole
  cards among them, while the same two cards are the player's hand: the constructor does
  not take the hole cards out of the deck.
\<close>

theorem constructor_keeps_hole_cards_in_deck:
  "(case deck (PokerGame 2 [CardStr ''As'', CardStr ''7d'']) of
      CardList d \<Rightarrow>
        length d = 52 \<and> distinct d \<and> CardStr ''As'' \<in> set d \<and> CardStr ''7d'' \<in> set d
    | DeckObject cs \<Rightarrow> False) \<and>
   getitem (players_hands (PokerGame 2 [CardStr ''As'', CardStr ''7d''])) (Name ''player1'') =
     Inr [CardStr ''As'', CardStr ''7d'']"
  by (simp add: PokerGame_deck PokerGame_fields getitem_def)



text \<open>
  Claim C9, as amended. Take a trial of \<open>simulate_remaining_game\<close> or of
  \<open>calculate_hand_probability\<close> on a game whose deck is the list of cards, and let
  \<open>k\<close> be \<open>5 - |Board| - |Burned|\<close> when that is positive and zero otherwise. When the
  deck holds at least \<open>k\<close> cards, the trial goes on with a board that is the persistent
  board followed by the last \<open>k\<close> cards of the deck, the last one first: exactly \<open>k\<close>
  cards are drawn and appended. When the deck holds fewer than \<open>k\<close> cards, the trial
  raises \<open>IndexError\<close> instead of drawing \<open>k\<close> cards; nothing checks the size of the
  deck beforehand. \<open>calculate_hand_probability\<close> runs no trial at all when the
  evaluator has no attribute \<open>HAND_EVAL\<close>: it raises \<open>AttributeError\<close> first.
  (On the \<open>Deck\<close> object that \<open>new_game\<close> stores, see C6, a trial with no card to
  draw goes on with the persistent board and a trial with cards to draw raises
  \<open>AttributeError\<close>.)
\<close>

theorem trial_draws_from_the_end_of_the_deck:
  assumes "k = nat (5 - int (length (board w)) - int (length (burned_cards w)))"
  shows "(deck w = CardList d \<longrightarrow>
            (k \<le> length d \<longrightarrow>
               simulate_trial ev w opponent_hands =
                 showdown ev w (board w @ rev (drop (length d - k) d)) opponent_hands \<and>
               hand_trial ev hand_type_score w =
                 hand_showdown ev hand_type_score w (board w @ rev (drop (length d - k) d)) \<and>
               int (length (rev (drop (length d - k) d))) =
                 (if 0 < 5 - int (length (board w)) - int (length (burned_cards w))
                  then 5 - int (length (board w)) - int (length (burned_cards w)) else 0)) \<and>
            (length d < k \<longrightarrow>
               simulate_trial ev w opponent_hands = Inl IndexError \<and>
               hand_trial ev hand_type_score w = (Inl IndexError, w))) \<and>
         (deck w = DeckObject cards \<longrightarrow>
            (k = 0 \<longrightarrow>
               simulate_trial ev w opponent_hands = showdown ev w (board w) opponent_hands \<and>
               hand_trial ev hand_type_score w = hand_showdown ev hand_type_score w (board w)) \<and>
            (0 < k \<longrightarrow>
               simulate_trial ev w opponent_hands = Inl AttributeError \<and>
               hand_trial ev hand_type_score w = (Inl AttributeError, w))) \<and>
         (HAND_EVAL ev = None \<longrightarrow>
            calculate_hand_probability ev hand_type w = (Inl AttributeError, w))"
proof (intro conjI impI)
  assume d: "deck w = CardList d" and le: "k \<le> length d"
  have s: "simulate_community_cards w =
      Inr (CardList (take (length d - k) d), board w @ rev (drop (length d - k) d))"
    using le by (simp add: simulate_community_cards_list [OF d] assms)
  show "simulate_trial ev w opponent_hands =
      showdown ev w (board w @ rev (drop (length d - k) d)) opponent_hands"
    by (simp add: simulate_trial_showdown s)
  show "hand_trial ev hand_type_score w =
      hand_showdown ev hand_type_score w (board w @ rev (drop (length d - k) d))"
    by (simp add: hand_trial_showdown s)
  show "int (length (rev (drop (length d - k) d))) =
      (if 0 < 5 - int (length (board w)) - int (length (burned_cards w))
       then 5 - int (length (board w)) - int (length (burned_cards w)) else 0)"
    using le assms by auto
next
  assume d: "deck w = CardList d" and less: "length d < k"
  have s: "simulate_community_cards w = Inl IndexError"
    using less by (simp add: simulate_community_cards_list [OF d] assms)
  show "simulate_trial ev w opponent_hands = Inl IndexError"
    by (simp add: simulate_trial_showdown s)
  show "hand_trial ev hand_type_score w = (Inl IndexError, w)"
    by (simp add: hand_trial_showdown s)
next
  assume d: "deck w = DeckObject cards" and k: "k = 0"
  have s: "simulate_community_cards w = Inr (deck w, board w)"
    using k by (simp add: simulate_community_cards_object [OF d] assms)
  show "simulate_trial ev w opponent_hands = showdown ev w (board w) opponent_hands"
    by (simp add: simulate_trial_showdown s)
  show "hand_trial ev hand_type_score w = hand_showdown ev hand_type_score w (board w)"
    by (simp add: hand_trial_showdown s)
next
  assume d: "deck w = DeckObject cards" and k: "0 < k"
  have s: "simulate_community_cards w = Inl AttributeError"
    using k by (simp add: simulate_community_cards_object [OF d] assms)
  show "simulate_trial ev w opponent_hands = Inl AttributeError"
    by (simp add: simulate_trial_showdown s)
  show "hand_trial ev hand_type_score w = (Inl AttributeError, w)"
    by (simp add: hand_trial_showdown s)
next
  assume "HAND_EVAL ev = None"
  then show "calculate_hand_probability ev hand_type w = (Inl AttributeError, w)"
    by (simp add: calculate_hand_probability_def)
qed

text \<open>
  After a flop three cards are on the board and none is burned: the trial draws the ace
  of spades and the ace of clubs and goes on with a board of five cards. With the
  evaluator as it is, \<open>calculate_hand_probability\<close> raises before any trial.
\<close>

theorem trial_draws_from_the_end_of_the_deck_witness:
  "simulate_trial ace_evaluator
     (snd (update_board [CardStr ''2c'', CardStr ''7h'', CardStr ''9d'']
        (start 2 [CardStr ''Kh'', CardStr ''Kd''] (sconst (0, 0)))))
     [[CardStr ''3d'', CardStr ''8s'']] =
   showdown ace_evaluator
     (snd (update_board [CardStr ''2c'', CardStr ''7h'', CardStr ''9d'']
        (start 2 [CardStr ''Kh'', CardStr ''Kd''] (sconst (0, 0)))))
     (map CardStr [''2c'', ''7h'', ''9d'', ''As'', ''Ac''])
     [[CardStr ''3d'', CardStr ''8s'']] \<and>
   showdown ace_evaluator
     (snd (update_board [CardStr ''2c'', CardStr ''7h'', CardStr ''9d'']
        (start 2 [CardStr ''Kh'', CardStr ''Kd''] (sconst (0, 0)))))
     (map CardStr [''2c'', ''7h'', ''9d'', ''As'', ''Ac''])
     [[CardStr ''3d'', CardStr ''8s'']] = Inr False \<and>
   calculate_hand_probability ace_evaluator ''flush''
     (start 2 [CardStr ''Kh'', CardStr ''Kd''] (sconst (0, 0))) =
     (Inl AttributeError, start 2 [CardStr ''Kh'', CardStr ''Kd''] (sconst (0, 0)))"
proof -
  define w where "w = snd (update_board [CardStr ''2c'', CardStr ''7h'', CardStr ''9d'']
        (start 2 [CardStr ''Kh'', CardStr ''Kd''] (sconst (0, 0))))"
  let ?d = "map CardStr
     [''2h'', ''2d'', ''2s'', ''3h'', ''3d'', ''3c'', ''3s'', ''4h'', ''4d'', ''4c'', ''4s'',
      ''5h'', ''5d'', ''5c'', ''5s'', ''6h'', ''6d'', ''6c'', ''6s'', ''7d'', ''7c'', ''7s'',
      ''8h'', ''8d'', ''8c'', ''8s'', ''9h'', ''9c'', ''9s'', ''10h'', ''10d'', ''10c'', ''10s'',
      ''Jh'', ''Jd'', ''Jc'', ''Js'', ''Qh'', ''Qd'', ''Qc'', ''Qs'', ''Kh'', ''Kd'', ''Kc'', ''Ks'',
      ''Ah'', ''Ad'', ''Ac'', ''As'']"
  have w: "deck w = CardList ?d"
    "board w = map CardStr [''2c'', ''7h'', ''9d'']" "burned_cards w = []"
    "players_hands w = [(Name ''player1'', [CardStr ''Kh'', CardStr ''Kd''])]"
    unfolding w_def flop_state by (simp_all add: start_fields)
  have k: "(2::nat) = nat (5 - int (length (board w)) - int (length (burned_cards w)))"
    by (simp add: w)
  have le: "(2::nat) \<le> length ?d" by simp
  from trial_draws_from_the_end_of_the_deck [OF k,
      of _ ace_evaluator "[[CardStr ''3d'', CardStr ''8s'']]"] w(1) le
  have "simulate_trial ace_evaluator w [[CardStr ''3d'', CardStr ''8s'']] =
      showdown ace_evaluator w (board w @ rev (drop (length ?d - 2) ?d))
        [[CardStr ''3d'', CardStr ''8s'']]"
    by blast
  then have 1: "simulate_trial ace_evaluator w [[CardStr ''3d'', CardStr ''8s'']] =
      showdown ace_evaluator w (map CardStr [''2c'', ''7h'', ''9d'', ''As'', ''Ac''])
        [[CardStr ''3d'', CardStr ''8s'']]"
    by (simp add: w)
  have 2: "showdown ace_evaluator w (map CardStr [''2c'', ''7h'', ''9d'', ''As'', ''Ac''])
        [[CardStr ''3d'', CardStr ''8s'']] = Inr False"
    by (simp add: showdown_def w getitem_def ace_evaluator_def)
  have h: "HAND_EVAL ace_evaluator = None" by (simp add: ace_evaluator_def)
  have d0: "deck (start 2 [CardStr ''Kh'', CardStr ''Kd''] (sconst (0, 0))) =
      CardList (map CardStr
     [''2h'', ''2d'', ''2c'', ''2s'', ''3h'', ''3d'', ''3c'', ''3s'', ''4h'', ''4d'', ''4c'', ''4s'',
      ''5h'', ''5d'', ''5c'', ''5s'', ''6h'', ''6d'', ''6c'', ''6s'', ''7h'', ''7d'', ''7c'', ''7s'',
      ''8h'', ''8d'', ''8c'', ''8s'', ''9h'', ''9d'', ''9c'', ''9s'', ''10h'', ''10d'', ''10c'', ''10s'',
      ''Jh'', ''Jd'', ''Jc'', ''Js'', ''Qh'', ''Qd'', ''Qc'', ''Qs'', ''Kh'', ''Kd'', ''Kc'', ''Ks'',
      ''Ah'', ''Ad'', ''Ac'', ''As''])"
    by (simp add: start_fields PokerGame_deck)
  from trial_draws_from_the_end_of_the_deck [OF refl, where ev = ace_evaluator] h
  have 3: "calculate_hand_probability ace_evaluator ''flush''
     (start 2 [CardStr ''Kh'', CardStr ''Kd''] (sconst (0, 0))) =
     (Inl AttributeError, start 2 [CardStr ''Kh'', CardStr ''Kd''] (sconst (0, 0)))"
    by blast
  from 1 2 3 show ?thesis unfolding w_def by blast
qed

text \<open>
  Claim C9 as stated fails: after 48 cards have gone to an opponent's hand the board and
  the burned cards are still empty, so five cards are to be drawn, but the deck holds
  four and the trial raises \<open>IndexError\<close>.
\<close>

theorem short_deck_trial_raises:
  "board (fold (\<lambda>c w. snd (add_to_opponent_hand (Name ''player2'') c w))
      (map CardStr
     [''2h'', ''2d'', ''2c'', ''2s'', ''3h'', ''3d'', ''3c'', ''3s'', ''4h'', ''4d'', ''4c'', ''4s'',
      ''5h'', ''5d'', ''5c'', ''5s'', ''6h'', ''6d'', ''6c'', ''6s'', ''7h'', ''7d'', ''7c'', ''7s'',
      ''8h'', ''8d'', ''8c'', ''8s'', ''9h'', ''9d'', ''9c'', ''9s'', ''10h'', ''10d'', ''10c'', ''10s'',
      ''Jh'', ''Jd'', ''Jc'', ''Js'', ''Qh'', ''Qd'', ''Qc'', ''Qs'', ''Kh'', ''Kd'', ''Kc'', ''Ks''])
      (start 2 [CardStr ''Kh'', CardStr ''Kd''] (sconst (0, 0)))) = [] \<and>
   burned_cards (fold (\<lambda>c w. snd (add_to_opponent_hand (Name ''player2'') c w))
      (map CardStr
     [''2h'', ''2d'', ''2c'', ''2s'', ''3h'', ''3d'', ''3c'', ''3s'', ''4h'', ''4d'', ''4c'', ''4s'',
      ''5h'', ''5d'', ''5c'', ''5s'', ''6h'', ''6d'', ''6c'', ''6s'', ''7h'', ''7d'', ''7c'', ''7s'',
      ''8h'', ''8d'', ''8c'', ''8s'', ''9h'', ''9d'', ''9c'', ''9s'', ''10h'', ''10d'', ''10c'', ''10s'',
      ''Jh'', ''Jd'', ''Jc'', ''Js'', ''Qh'', ''Qd'', ''Qc'', ''Qs'', ''Kh'', ''Kd'', ''Kc'', ''Ks''])
      (start 2 [CardStr ''Kh'', CardStr ''Kd''] (sconst (0, 0)))) = [] \<and>
   deck (fold (\<lambda>c w. snd (add_to_opponent_hand (Name ''player2'') c w))
      (map CardStr
     [''2h'', ''2d'', ''2c'', ''2s'', ''3h'', ''3d'', ''3c'', ''3s'', ''4h'', ''4d'', ''4c'', ''4s'',
      ''5h'', ''5d'', ''5c'', ''5s'', ''6h'', ''6d'', ''6c'', ''6s'', ''7h'', ''7d'', ''7c'', ''7s'',
      ''8h'', ''8d'', ''8c'', ''8s'', ''9h'', ''9d'', ''9c'', ''9s'', ''10h'', ''10d'', ''10c'', ''10s'',
      ''Jh'', ''Jd'', ''Jc'', ''Js'', ''Qh'', ''Qd'', ''Qc'', ''Qs'', ''Kh'', ''Kd'', ''Kc'', ''Ks''])
      (start 2 [CardStr ''Kh'', CardStr ''Kd''] (sconst (0, 0)))) =
     CardList (map CardStr [''Ah'', ''Ad'', ''Ac'', ''As'']) \<and>
   simulate_trial ace_evaluator
     (fold (\<lambda>c w. snd (add_to_opponent_hand (Name ''player2'') c w))
      (map CardStr
     [''2h'', ''2d'', ''2c'', ''2s'', ''3h'', ''3d'', ''3c'', ''3s'', ''4h'', ''4d'', ''4c'', ''4s'',
      ''5h'', ''5d'', ''5c'', ''5s'', ''6h'', ''6d'', ''6c'', ''6s'', ''7h'', ''7d'', ''7c'', ''7s'',
      ''8h'', ''8d'', ''8c'', ''8s'', ''9h'', ''9d'', ''9c'', ''9s'', ''10h'', ''10d'', ''10c'', ''10s'',
      ''Jh'', ''Jd'', ''Jc'', ''Js'', ''Qh'', ''Qd'', ''Qc'', ''Qs'', ''Kh'', ''Kd'', ''Kc'', ''Ks''])
      (start 2 [CardStr ''Kh'', CardStr ''Kd''] (sconst (0, 0))))
     [[CardStr ''3d'', CardStr ''8s'']] = Inl IndexError"
proof -
  define w where "w = fold (\<lambda>c w. snd (add_to_opponent_hand (Name ''player2'') c w))
      (map CardStr
     [''2h'', ''2d'', ''2c'', ''2s'', ''3h'', ''3d'', ''3c'', ''3s'', ''4h'', ''4d'', ''4c'', ''4s'',
      ''5h'', ''5d'', ''5c'', ''5s'', ''6h'', ''6d'', ''6c'', ''6s'', ''7h'', ''7d'', ''7c'', ''7s'',
      ''8h'', ''8d'', ''8c'', ''8s'', ''9h'', ''9d'', ''9c'', ''9s'', ''10h'', ''10d'', ''10c'', ''10s'',
      ''Jh'', ''Jd'', ''Jc'', ''Js'', ''Qh'', ''Qd'', ''Qc'', ''Qs'', ''Kh'', ''Kd'', ''Kc'', ''Ks''])
      (start 2 [CardStr ''Kh'', CardStr ''Kd''] (sconst (0, 0)))"
  have w: "board w = []" "burned_cards w = []"
    "deck w = CardList (map CardStr [''Ah'', ''Ad'', ''Ac'', ''As''])"
    unfolding w_def
    by (simp_all add: add_to_opponent_hand_def start_fields PokerGame_deck no_opponent_cards_def
        str_int_def str_nat.simps upto.simps Let_def)
  have "simulate_trial ace_evaluator w [[CardStr ''3d'', CardStr ''8s'']] = Inl IndexError"
    by (simp add: simulate_trial_showdown simulate_community_cards_list [OF w(3)] w)
  with w show ?thesis unfolding w_def by blast
qed

text \<open>
  Claim C6. After \<open>new_game\<close> the player's hand is the given hole cards, every opponent's
  hand is empty, and the board and the burned cards are empty; but the deck is a
  \<open>Deck\<close> object of the library, not the list of tokens the constructor builds and the
  other operations work on. On it \<open>update_board\<close> and \<open>reveal_card\<close> raise
  \<open>TypeError\<close> at their first card and \<open>simulate_remaining_game\<close> raises
  \<open>AttributeError\<close> in its first trial.
\<close>

theorem new_game_stores_a_Deck_object:
  "deck (new_game fresh n hole_cards w) = DeckObject fresh \<and>
   players_hands (new_game fresh n hole_cards w) = [(Name ''player1'', hole_cards)] \<and>
   map snd (opponents_hands (new_game fresh n hole_cards w)) = replicate (nat (n - 1)) [] \<and>
   board (new_game fresh n hole_cards w) = [] \<and>
   burned_cards (new_game fresh n hole_cards w) = [] \<and>
   update_board (c # cs) (new_game fresh n hole_cards w) =
     (Inl TypeError, new_game fresh n hole_cards w) \<and>
   reveal_card c (new_game fresh n hole_cards w) =
     (Inl TypeError, new_game fresh n hole_cards w) \<and>
   simulate_remaining_game ev opponent_hands (new_game fresh n hole_cards w) = Inl AttributeError"
proof -
  have "map snd (no_opponent_cards n) = replicate (nat (n - 1)) []"
    by (simp add: no_opponent_cards_def comp_def map_replicate_const)
  moreover have "simulate_community_cards (new_game fresh n hole_cards w) = Inl AttributeError"
    by (simp add: simulate_community_cards_def new_game_def eval_nat_numeral)
  ultimately show ?thesis
    by (simp add: simulate_remaining_game_trial simulate_trial_def)
      (simp add: new_game_def reveal_card_def)
qed

text \<open>
  Claim C7. Every call of \<open>update_board\<close> should put each given card that is in the
  deck on the board, report each card that is not, and go on with the remaining cards.
  On a deck that is the list of cards it does: the call with no card changes nothing, the
  call with one card either moves the card from the deck to the board or prints the error
  line and changes nothing else, and a call with more cards is the call with the first
  ones followed by the call with the others; no call raises. On the \<open>Deck\<close> object
  that \<open>new_game\<close> stores, the call raises \<open>TypeError\<close> at its first card: no error
  line is printed and the remaining cards are not processed.
\<close>

theorem update_board_by_deck_kind:
  "(deck w = DeckObject cards \<longrightarrow> update_board (c # cs) w = (Inl TypeError, w)) \<and>
   (deck w = CardList d \<longrightarrow>
      update_board [] w = (Inr (), w) \<and>
      update_board [c] w =
        (Inr (), if c \<in> set d
                 then w\<lparr>board := board w @ [c], deck := CardList (remove1 c d)\<rparr>
                 else w\<lparr>stdout := stdout w @ [not_in_deck c]\<rparr>) \<and>
      (\<exists>w1 d1. update_board xs w = (Inr (), w1) \<and> deck w1 = CardList d1 \<and>
         update_board (xs @ ys) w = update_board ys w1))"
proof (intro conjI impI)
  assume "deck w = DeckObject cards"
  then show "update_board (c # cs) w = (Inl TypeError, w)" by simp
next
  assume "deck w = CardList d"
  then show "update_board [c] w =
        (Inr (), if c \<in> set d
                 then w\<lparr>board := board w @ [c], deck := CardList (remove1 c d)\<rparr>
                 else w\<lparr>stdout := stdout w @ [not_in_deck c]\<rparr>)"
    by (simp add: Let_def)
next
  assume d: "deck w = CardList d"
  from update_board_list_deck [OF d, of xs]
  obtain w1 d1 where 1: "update_board xs w = (Inr (), w1)" and 2: "deck w1 = CardList d1"
    by (cases "update_board xs w") auto
  then show "\<exists>w1 d1. update_board xs w = (Inr (), w1) \<and> deck w1 = CardList d1 \<and>
         update_board (xs @ ys) w = update_board ys w1"
    by (simp add: update_board_append)
qed simp

text \<open>
  After \<open>new_game\<close> the call with two cards raises and the console stays empty; on the
  game as constructed the king of clubs goes from the deck to the board.
\<close>

theorem update_board_by_deck_kind_witness:
  "update_board [CardStr ''2h'', CardStr ''3h'']
     (new_game (map CardInt [1..52]) 2 [CardStr ''Kh'', CardStr ''7d'']
        (start 2 [CardStr ''Kh'', CardStr ''7d''] (sconst (0, 0)))) =
     (Inl TypeError,
      new_game (map CardInt [1..52]) 2 [CardStr ''Kh'', CardStr ''7d'']
        (start 2 [CardStr ''Kh'', CardStr ''7d''] (sconst (0, 0)))) \<and>
   stdout (new_game (map CardInt [1..52]) 2 [CardStr ''Kh'', CardStr ''7d'']
        (start 2 [CardStr ''Kh'', CardStr ''7d''] (sconst (0, 0)))) = [] \<and>
   update_board [CardStr ''Kc'']
     (start 2 [CardStr ''Kh'', CardStr ''7d''] (sconst (0, 0))) =
     (Inr (), (start 2 [CardStr ''Kh'', CardStr ''7d''] (sconst (0, 0)))
        \<lparr>board := [CardStr ''Kc''],
         deck := CardList (map CardStr
     [''2h'', ''2d'', ''2c'', ''2s'', ''3h'', ''3d'', ''3c'', ''3s'', ''4h'', ''4d'', ''4c'', ''4s'',
      ''5h'', ''5d'', ''5c'', ''5s'', ''6h'', ''6d'', ''6c'', ''6s'', ''7h'', ''7d'', ''7c'', ''7s'',
      ''8h'', ''8d'', ''8c'', ''8s'', ''9h'', ''9d'', ''9c'', ''9s'', ''10h'', ''10d'', ''10c'', ''10s'',
      ''Jh'', ''Jd'', ''Jc'', ''Js'', ''Qh'', ''Qd'', ''Qc'', ''Qs'', ''Kh'', ''Kd'', ''Ks'',
      ''Ah'', ''Ad'', ''Ac'', ''As''])\<rparr>)"
proof -
  let ?g = "new_game (map CardInt [1..52]) 2 [CardStr ''Kh'', CardStr ''7d'']
        (start 2 [CardStr ''Kh'', CardStr ''7d''] (sconst (0, 0)))"
  let ?w = "start 2 [CardStr ''Kh'', CardStr ''7d''] (sconst (0, 0))"
  have g: "deck ?g = DeckObject (map CardInt [1..52])"
    by (simp add: new_game_def)
  from g update_board_by_deck_kind
      [where w = ?g and c = "CardStr ''2h''" and cs = "[CardStr ''3h'']"]
  have 1: "update_board [CardStr ''2h'', CardStr ''3h''] ?g = (Inl TypeError, ?g)"
    by blast
  have 2: "stdout ?g = []"
    by (simp add: new_game_def start_fields)
  have w: "deck ?w = CardList (map CardStr
     [''2h'', ''2d'', ''2c'', ''2s'', ''3h'', ''3d'', ''3c'', ''3s'', ''4h'', ''4d'', ''4c'', ''4s'',
      ''5h'', ''5d'', ''5c'', ''5s'', ''6h'', ''6d'', ''6c'', ''6s'', ''7h'', ''7d'', ''7c'', ''7s'',
      ''8h'', ''8d'', ''8c'', ''8s'', ''9h'', ''9d'', ''9c'', ''9s'', ''10h'', ''10d'', ''10c'', ''10s'',
      ''Jh'', ''Jd'', ''Jc'', ''Js'', ''Qh'', ''Qd'', ''Qc'', ''Qs'', ''Kh'', ''Kd'', ''Kc'', ''Ks'',
      ''Ah'', ''Ad'', ''Ac'', ''As''])"
    by (simp add: start_fields PokerGame_deck)
  from w update_board_by_deck_kind [where w = ?w and c = "CardStr ''Kc''"]
  have "update_board [CardStr ''Kc''] ?w =
        (Inr (), if CardStr ''Kc'' \<in> set (map CardStr
     [''2h'', ''2d'', ''2c'', ''2s'', ''3h'', ''3d'', ''3c'', ''3s'', ''4h'', ''4d'', ''4c'', ''4s'',
      ''5h'', ''5d'', ''5c'', ''5s'', ''6h'', ''6d'', ''6c'', ''6s'', ''7h'', ''7d'', ''7c'', ''7s'',
      ''8h'', ''8d'', ''8c'', ''8s'', ''9h'', ''9d'', ''9c'', ''9s'', ''10h'', ''10d'', ''10c'', ''10s'',
      ''Jh'', ''Jd'', ''Jc'', ''Js'', ''Qh'', ''Qd'', ''Qc'', ''Qs'', ''Kh'', ''Kd'', ''Kc'', ''Ks'',
      ''Ah'', ''Ad'', ''Ac'', ''As''])
                 then ?w\<lparr>board := board ?w @ [CardStr ''Kc''], deck := CardList (remove1 (CardStr ''Kc'') (map CardStr
     [''2h'', ''2d'', ''2c'', ''2s'', ''3h'', ''3d'', ''3c'', ''3s'', ''4h'', ''4d'', ''4c'', ''4s'',
      ''5h'', ''5d'', ''5c'', ''5s'', ''6h'', ''6d'', ''6c'', ''6s'', ''7h'', ''7d'', ''7c'', ''7s'',
      ''8h'', ''8d'', ''8c'', ''8s'', ''9h'', ''9d'', ''9c'', ''9s'', ''10h'', ''10d'', ''10c'', ''10s'',
      ''Jh'', ''Jd'', ''Jc'', ''Js'', ''Qh'', ''Qd'', ''Qc'', ''Qs'', ''Kh'', ''Kd'', ''Kc'', ''Ks'',
      ''Ah'', ''Ad'', ''Ac'', ''As'']))\<rparr>
                 else ?w\<lparr>stdout := stdout ?w @ [not_in_deck (CardStr ''Kc'')]\<rparr>)"
    by blast
  then have 3: "update_board [CardStr ''Kc''] ?w =
     (Inr (), ?w\<lparr>board := [CardStr ''Kc''],
         deck := CardList (map CardStr
     [''2h'', ''2d'', ''2c'', ''2s'', ''3h'', ''3d'', ''3c'', ''3s'', ''4h'', ''4d'', ''4c'', ''4s'',
      ''5h'', ''5d'', ''5c'', ''5s'', ''6h'', ''6d'', ''6c'', ''6s'', ''7h'', ''7d'', ''7c'', ''7s'',
      ''8h'', ''8d'', ''8c'', ''8s'', ''9h'', ''9d'', ''9c'', ''9s'', ''10h'', ''10d'', ''10c'', ''10s'',
      ''Jh'', ''Jd'', ''Jc'', ''Js'', ''Qh'', ''Qd'', ''Qc'', ''Qs'', ''Kh'', ''Kd'', ''Ks'',
      ''Ah'', ''Ad'', ''Ac'', ''As''])\<rparr>)"
    by (simp add: start_fields)
  from 1 2 3 show ?thesis by blast
qed

text \<open>
  Claim C3, as amended. \<open>calculate_hand_probability\<close> is read-only: whenever it
  returns, from a game whose deck holds fewer than 10000 cards (the constructor's deck
  holds 52 and no operation adds a card), the deck, the board, the burned cards, the
  player's hand and the opponents' hands are what they were; with the evaluator that has
  no \<open>HAND_EVAL\<close> it raises \<open>AttributeError\<close> and changes nothing.
  \<open>calculate_win_probabilities\<close> leaves the board, the burned cards and the player's
  hand unchanged, whether it returns or raises, but it leaves the object exactly as its
  one call of \<open>deal_opponent_hands\<close> leaves it: the deck and the opponents' hands are
  unchanged when there is no opponent, and the deck has changed whenever there is an
  opponent and the call returns.
\<close>

theorem estimation_changes_only_by_dealing:
  "snd (calculate_win_probabilities ev w) = snd (deal_opponent_hands w) \<and>
   board (snd (calculate_win_probabilities ev w)) = board w \<and>
   burned_cards (snd (calculate_win_probabilities ev w)) = burned_cards w \<and>
   players_hands (snd (calculate_win_probabilities ev w)) = players_hands w \<and>
   (opponents_hands w = [] \<longrightarrow>
      deck (snd (calculate_win_probabilities ev w)) = deck w \<and>
      opponents_hands (snd (calculate_win_probabilities ev w)) = opponents_hands w) \<and>
   (opponents_hands w \<noteq> [] \<and> fst (calculate_win_probabilities ev w) = Inr p \<longrightarrow>
      deck (snd (calculate_win_probabilities ev w)) \<noteq> deck w) \<and>
   board (snd (calculate_hand_probability ev hand_type w)) = board w \<and>
   burned_cards (snd (calculate_hand_probability ev hand_type w)) = burned_cards w \<and>
   players_hands (snd (calculate_hand_probability ev hand_type w)) = players_hands w \<and>
   (HAND_EVAL ev = None \<longrightarrow>
      calculate_hand_probability ev hand_type w = (Inl AttributeError, w)) \<and>
   ((case deck w of CardList d \<Rightarrow> length d < 10000 | DeckObject cs \<Rightarrow> True) \<longrightarrow>
      (\<exists>e. fst (calculate_hand_probability ev hand_type w) = Inl e) \<or>
      deck (snd (calculate_hand_probability ev hand_type w)) = deck w \<and>
      opponents_hands (snd (calculate_hand_probability ev hand_type w)) = opponents_hands w)"
proof -
  have 1: "snd (calculate_win_probabilities ev w) = snd (deal_opponent_hands w)"
    by (rule calculate_win_probabilities_state)
  have 2: "board (snd (deal_opponent_hands w)) = board w \<and>
     burned_cards (snd (deal_opponent_hands w)) = burned_cards w \<and>
     players_hands (snd (deal_opponent_hands w)) = players_hands w"
    using deal_opponent_hands_frame
      [of w "fst (deal_opponent_hands w)" "snd (deal_opponent_hands w)"]
    by simp
  have 3: "board (snd (calculate_hand_probability ev hand_type w)) = board w \<and>
     burned_cards (snd (calculate_hand_probability ev hand_type w)) = burned_cards w \<and>
     players_hands (snd (calculate_hand_probability ev hand_type w)) = players_hands w"
    using calculate_hand_probability_frame [of ev hand_type w
        "fst (calculate_hand_probability ev hand_type w)"
        "snd (calculate_hand_probability ev hand_type w)"]
    by simp
  have 4: "opponents_hands w = [] \<longrightarrow>
      deck (snd (calculate_win_probabilities ev w)) = deck w \<and>
      opponents_hands (snd (calculate_win_probabilities ev w)) = opponents_hands w"
    by (simp add: 1 deal_opponent_hands_nobody)
  have 5: "opponents_hands w \<noteq> [] \<and> fst (calculate_win_probabilities ev w) = Inr p \<longrightarrow>
      deck (snd (calculate_win_probabilities ev w)) \<noteq> deck w"
    using calculate_win_probabilities_deals by blast
  have 6: "HAND_EVAL ev = None \<longrightarrow>
      calculate_hand_probability ev hand_type w = (Inl AttributeError, w)"
    by (simp add: calculate_hand_probability_def)
  have 7: "(case deck w of CardList d \<Rightarrow> length d < 10000 | DeckObject cs \<Rightarrow> True) \<longrightarrow>
      (\<exists>e. fst (calculate_hand_probability ev hand_type w) = Inl e) \<or>
      deck (snd (calculate_hand_probability ev hand_type w)) = deck w \<and>
      opponents_hands (snd (calculate_hand_probability ev hand_type w)) = opponents_hands w"
  proof (cases "fst (calculate_hand_probability ev hand_type w)")
    case (Inl e)
    then show ?thesis by blast
  next
    case (Inr r)
    from calculate_hand_probability_returns [OF Inr] show ?thesis by blast
  qed
  from 1 2 3 4 5 6 7 show ?thesis by simp
qed

text \<open>
  A game of one player has no opponent and the estimate leaves the deck as it was; in a
  game of two players the estimate returns and the deck has changed;
  \<open>calculate_hand_probability\<close> raises at once and leaves the world as it was.
\<close>

theorem estimation_changes_only_by_dealing_witness:
  "opponents_hands (start 1 [CardStr ''Kh'', CardStr ''7d''] (sconst (0, 0))) = [] \<and>
   fst (calculate_win_probabilities ace_evaluator
     (start 1 [CardStr ''Kh'', CardStr ''7d''] (sconst (0, 0)))) = Inr 1 \<and>
   deck (snd (calculate_win_probabilities ace_evaluator
     (start 1 [CardStr ''Kh'', CardStr ''7d''] (sconst (0, 0))))) =
     deck (start 1 [CardStr ''Kh'', CardStr ''7d''] (sconst (0, 0))) \<and>
   opponents_hands (start 2 [CardStr ''Kh'', CardStr ''7d''] (sconst (0, 0))) \<noteq> [] \<and>
   fst (calculate_win_probabilities ace_evaluator
     (start 2 [CardStr ''Kh'', CardStr ''7d''] (sconst (0, 0)))) = Inr 0 \<and>
   deck (snd (calculate_win_probabilities ace_evaluator
     (start 2 [CardStr ''Kh'', CardStr ''7d''] (sconst (0, 0))))) \<noteq>
     deck (start 2 [CardStr ''Kh'', CardStr ''7d''] (sconst (0, 0))) \<and>
   (case deck (start 2 [CardStr ''Kh'', CardStr ''7d''] (sconst (0, 0))) of
      CardList d \<Rightarrow> length d < 10000 | DeckObject cs \<Rightarrow> True) \<and>
   calculate_hand_probability ace_evaluator ''flush''
     (start 2 [CardStr ''Kh'', CardStr ''7d''] (sconst (0, 0))) =
     (Inl AttributeError, start 2 [CardStr ''Kh'', CardStr ''7d''] (sconst (0, 0)))"
proof -
  let ?w1 = "start 1 [CardStr ''Kh'', CardStr ''7d''] (sconst (0, 0))"
  let ?w2 = "start 2 [CardStr ''Kh'', CardStr ''7d''] (sconst (0, 0))"
  have h1: "opponents_hands ?w1 = []"
    by (simp add: start_fields no_opponent_cards_def)
  have d1: "deal_opponent_hands ?w1 = (Inr [], ?w1)"
    by (rule deal_opponent_hands_nobody [OF h1])
  note dr = first_draw [of ?w1 1 "[CardStr ''Kh'', CardStr ''7d'']",
      OF start_fields(1) start_fields(2) start_fields(3)]
  have t1: "simulate_trial ace_evaluator ?w1 [] = Inr True"
    by (simp add: simulate_trial_def dr)
      (simp add: start_fields ace_evaluator_def getitem_def)
  have r1: "fst (calculate_win_probabilities ace_evaluator ?w1) = Inr 1"
    by (simp add: calculate_win_probabilities_def start_fields d1
        simulate_remaining_game_trial t1)
  have h2: "opponents_hands ?w2 \<noteq> []"
    by (simp add: start_fields no_opponent_cards_def upto.simps)
  have h3: "HAND_EVAL ace_evaluator = None"
    by (simp add: ace_evaluator_def)
  note t = estimation_changes_only_by_dealing
  from h1 t [of ace_evaluator ?w1]
  have a: "deck (snd (calculate_win_probabilities ace_evaluator ?w1)) = deck ?w1"
    by blast
  from h2 first_estimate t [of ace_evaluator ?w2 0]
  have b: "deck (snd (calculate_win_probabilities ace_evaluator ?w2)) \<noteq> deck ?w2"
    by blast
  from h3 t [of ace_evaluator ?w2 _ "''flush''"]
  have c: "calculate_hand_probability ace_evaluator ''flush'' ?w2 = (Inl AttributeError, ?w2)"
    by blast
  have l: "case deck ?w2 of CardList d \<Rightarrow> length d < 10000 | DeckObject cs \<Rightarrow> True"
    by (simp add: start_fields PokerGame_deck)
  from h1 r1 a h2 first_estimate b l c show ?thesis by blast
qed

text \<open>
  Claim C3 as stated fails: in a fresh game of two players
  \<open>calculate_win_probabilities\<close> returns a value, and afterwards the deck and the
  opponents' hands are not what they were.
\<close>

theorem estimate_deals_from_persistent_deck:
  "fst (calculate_win_probabilities ace_evaluator
          (start 2 [CardStr ''Kh'', CardStr ''7d''] (sconst (0, 0)))) = Inr 0 \<and>
   deck (snd (calculate_win_probabilities ace_evaluator
          (start 2 [CardStr ''Kh'', CardStr ''7d''] (sconst (0, 0))))) \<noteq>
     deck (start 2 [CardStr ''Kh'', CardStr ''7d''] (sconst (0, 0))) \<and>
   opponents_hands (snd (calculate_win_probabilities ace_evaluator
          (start 2 [CardStr ''Kh'', CardStr ''7d''] (sconst (0, 0))))) \<noteq>
     opponents_hands (start 2 [CardStr ''Kh'', CardStr ''7d''] (sconst (0, 0)))"
  by (simp add: first_estimate calculate_win_probabilities_state first_deal)
    (simp add: start_fields PokerGame_deck no_opponent_cards_def upto.simps)

text \<open>
  Claim C4. \<open>calculate_win_probabilities\<close> should behave in the same way in every stage,
  a simulation over freshly dealt opponents. Only the first branch does that. Once a
  card is on the board or burned, the other two branches deal the opponents' hands and
  then call \<open>.values()\<close> on the list that \<open>deal_opponent_hands\<close> returns: the call
  raises \<open>AttributeError\<close> (or the exception of the deal) and never simulates.
\<close>

theorem later_stages_raise:
  assumes "\<not> (length (board w) = 0 \<and> length (burned_cards w) = 0)"
  shows "calculate_win_probabilities ev w =
           (case deal_opponent_hands w of
              (Inl e, w') \<Rightarrow> (Inl e, w')
            | (Inr hands, w') \<Rightarrow> (Inl AttributeError, w'))"
  using assms
  by (auto simp: calculate_win_probabilities_def list_values_def split: prod.splits sum.splits)

text \<open>After a flop the estimate raises; before it, in the first branch, it returns.\<close>

theorem later_stages_raise_witness:
  "\<not> (length (board (snd (update_board [CardStr ''2c'', CardStr ''7h'', CardStr ''9d'']
         (start 2 [CardStr ''Kh'', CardStr ''Kd''] (sconst (0, 0)))))) = 0 \<and>
       length (burned_cards (snd (update_board [CardStr ''2c'', CardStr ''7h'', CardStr ''9d'']
         (start 2 [CardStr ''Kh'', CardStr ''Kd''] (sconst (0, 0)))))) = 0) \<and>
   fst (calculate_win_probabilities ace_evaluator
         (snd (update_board [CardStr ''2c'', CardStr ''7h'', CardStr ''9d'']
           (start 2 [CardStr ''Kh'', CardStr ''Kd''] (sconst (0, 0)))))) = Inl AttributeError \<and>
   fst (calculate_win_probabilities ace_evaluator
         (start 2 [CardStr ''Kh'', CardStr ''7d''] (sconst (0, 0)))) = Inr 0"
proof -
  define w2 where "w2 = snd (update_board [CardStr ''2c'', CardStr ''7h'', CardStr ''9d'']
         (start 2 [CardStr ''Kh'', CardStr ''Kd''] (sconst (0, 0))))"
  have w2: "w2 = (start 2 [CardStr ''Kh'', CardStr ''Kd''] (sconst (0, 0)))
      \<lparr>board := [CardStr ''2c'', CardStr ''7h'', CardStr ''9d''],
       deck := CardList (map CardStr
     [''2h'', ''2d'', ''2s'', ''3h'', ''3d'', ''3c'', ''3s'', ''4h'', ''4d'', ''4c'', ''4s'',
      ''5h'', ''5d'', ''5c'', ''5s'', ''6h'', ''6d'', ''6c'', ''6s'', ''7d'', ''7c'', ''7s'',
      ''8h'', ''8d'', ''8c'', ''8s'', ''9h'', ''9c'', ''9s'', ''10h'', ''10d'', ''10c'', ''10s'',
      ''Jh'', ''Jd'', ''Jc'', ''Js'', ''Qh'', ''Qd'', ''Qc'', ''Qs'', ''Kh'', ''Kd'', ''Kc'', ''Ks'',
      ''Ah'', ''Ad'', ''Ac'', ''As''])\<rparr>"
    unfolding w2_def flop_state by simp
  have h: "\<not> (length (board w2) = 0 \<and> length (burned_cards w2) = 0)"
    by (simp add: w2)
  have d: "fst (deal_opponent_hands w2) = Inr [[CardStr ''2h'', CardStr ''2d'']]"
    by (simp add: w2 deal_opponent_hands_def start_fields no_opponent_cards_def
      str_int_def str_nat.simps upto.simps Let_def)
  have "fst (calculate_win_probabilities ace_evaluator w2) = Inl AttributeError"
    using d by (auto simp: later_stages_raise [OF h] split: prod.splits sum.splits)
  with h first_estimate show ?thesis
    unfolding w2_def by blast
qed

text \<open>
  Claim C5. \<open>get_beating_hands\<close> should return the two-card combinations of the deck
  that beat the player's hand. It returns no combination in any game whose
  \<open>players_hands\<close> has no key 0 (the constructor and \<open>new_game\<close> store the hand under
  \<open>player1\<close>). On the list deck of the constructor, \<open>self.deck.cards\<close> raises
  \<open>AttributeError\<close>; on a \<open>Deck\<close> object the first combination ends the call, with the
  evaluator's exception or with \<open>KeyError\<close> at \<open>self.players_hands[0]\<close>; only a deck of
  fewer than two cards gives a result, the empty list.
\<close>

theorem get_beating_hands_collects_nothing:
  assumes "map_of (players_hands st) (Index 0) = None"
  shows "get_beating_hands ev st =
           (case deck st of
              CardList d \<Rightarrow> Inl AttributeError
            | DeckObject cards \<Rightarrow>
                (case combinations2 cards of
                   [] \<Rightarrow> Inr []
                 | combo # combos \<Rightarrow>
                     (case evaluate ev ([fst combo, snd combo] @ board st) (board st) of
                        Inl e \<Rightarrow> Inl e
                      | Inr s \<Rightarrow> Inl KeyError)))"
  using assms
  by (auto simp: get_beating_hands_def getitem_def split: deck.splits list.splits sum.splits)

text \<open>Right after construction, and after \<open>new_game\<close> with a \<open>Deck\<close> of 52 codes.\<close>

theorem get_beating_hands_collects_nothing_witness:
  "map_of (players_hands (PokerGame 2 [CardStr ''Kh'', CardStr ''7d''])) (Index 0) = None \<and>
   get_beating_hands ace_evaluator (PokerGame 2 [CardStr ''Kh'', CardStr ''7d'']) =
     Inl AttributeError \<and>
   get_beating_hands ace_evaluator
     (new_game (map CardInt [1..52]) 2 [CardStr ''Kh'', CardStr ''7d'']
        (start 2 [CardStr ''Kh'', CardStr ''7d''] (sconst (0, 0)))) = Inl KeyError"
proof -
  let ?w = "new_game (map CardInt [1..52]) 2 [CardStr ''Kh'', CardStr ''7d'']
        (start 2 [CardStr ''Kh'', CardStr ''7d''] (sconst (0, 0)))"
  have h1: "map_of (players_hands (PokerGame 2 [CardStr ''Kh'', CardStr ''7d''])) (Index 0) = None"
    by (simp add: PokerGame_fields)
  have h2: "map_of (players_hands ?w) (Index 0) = None"
    by (simp add: new_game_def)
  have d: "deck ?w = DeckObject (CardInt 1 # CardInt 2 # map CardInt [3..52])"
    by (simp add: new_game_def upto.simps)
  show ?thesis
    using h1 get_beating_hands_collects_nothing [OF h1, of ace_evaluator]
      get_beating_hands_collects_nothing [OF h2, of ace_evaluator]
    by (simp add: PokerGame_deck d) (simp add: ace_evaluator_def)
qed

text \<open>
  Claim C8, as amended. \<open>simulate_remaining_game\<close> has no check of the opponents'
  hands and no \<open>IncompleteHand\<close> error: a hand of fewer than two cards is converted
  and scored with the community cards like any other. Whenever the trial can draw its
  community cards, the player's hand is scored, and the conversion and the evaluation of
  each hand that is given succeed, the simulation is performed, whatever the lengths of
  the hands, and its value is returned: 1 if every hand scores strictly less than the
  player's, 0 otherwise.
\<close>

theorem simulate_scores_hands_of_any_length:
  assumes "simulate_community_cards st = Inr (remaining_deck, remaining_board)"
    and "comprehension (Card_new ev) (remaining_board @ burned_cards st) = Inr all_community_cards"
    and "getitem (players_hands st) (Name ''player1'') = Inr hole_cards"
    and "comprehension (Card_new ev) hole_cards = Inr player_hand"
    and "evaluate ev player_hand all_community_cards = Inr player_score"
    and "\<forall>hand \<in> set opponent_hands.
           \<exists>h. comprehension (Card_new ev) hand = Inr h \<and>
               evaluate ev h all_community_cards = Inr (score hand)"
  shows "simulate_remaining_game ev opponent_hands st =
           Inr (if \<forall>hand \<in> set opponent_hands. score hand < player_score then 1 else 0)"
proof -
  have "\<forall>hand \<in> set opponent_hands.
          (case comprehension (Card_new ev) hand of
             Inl e \<Rightarrow> Inl e
           | Inr h \<Rightarrow> evaluate ev h all_community_cards) = Inr (score hand)"
    using assms(6) by auto
  then have "comprehension
          (\<lambda>hand. case comprehension (Card_new ev) hand of
                     Inl e \<Rightarrow> Inl e
                   | Inr h \<Rightarrow> evaluate ev h all_community_cards)
          opponent_hands = Inr (map score opponent_hands)"
    by (rule comprehension_all)
  then have "simulate_trial ev st opponent_hands =
      Inr (list_all (\<lambda>s. s < player_score) (map score opponent_hands))"
    using assms(1-5) by (simp add: simulate_trial_def)
  then show ?thesis
    by (simp add: simulate_remaining_game_trial list_all_iff)
qed

text \<open>
  A hand of one card and an empty hand are scored with the five community cards; they tie
  with the player's hand and the value is 0.
\<close>

theorem simulate_scores_hands_of_any_length_witness:
  "simulate_remaining_game ace_evaluator [[CardStr ''2h''], []]
     (PokerGame 3 [CardStr ''Kh'', CardStr ''7d'']) = Inr 0"
proof -
  let ?st = "PokerGame 3 [CardStr ''Kh'', CardStr ''7d'']"
  let ?cc = "map CardStr [''As'', ''Ac'', ''Ad'', ''Ah'', ''Ks'']"
  note d = first_draw [of ?st 3 "[CardStr ''Kh'', CardStr ''7d'']",
      OF refl PokerGame_fields(1) PokerGame_fields(2)]
  have c: "comprehension (Card_new ace_evaluator) (?cc @ burned_cards ?st) = Inr ?cc"
    by (simp add: ace_evaluator_def PokerGame_fields)
  have g: "getitem (players_hands ?st) (Name ''player1'') = Inr [CardStr ''Kh'', CardStr ''7d'']"
    by (simp add: getitem_def PokerGame_fields)
  have p: "comprehension (Card_new ace_evaluator) [CardStr ''Kh'', CardStr ''7d''] =
      Inr [CardStr ''Kh'', CardStr ''7d'']"
    by (simp add: ace_evaluator_def)
  have e: "evaluate ace_evaluator [CardStr ''Kh'', CardStr ''7d''] ?cc = Inr 2"
    by (simp add: ace_evaluator_def)
  have o: "\<forall>hand \<in> set [[CardStr ''2h''], []].
           \<exists>h. comprehension (Card_new ace_evaluator) hand = Inr h \<and>
               evaluate ace_evaluator h ?cc = Inr ((\<lambda>hand. 2) hand)"
    by (simp add: ace_evaluator_def)
  show ?thesis
    using simulate_scores_hands_of_any_length [OF d c g p e o] by auto
qed

text \<open>
  Claim C8 as stated fails: with an opponent who has no card and one who has a single
  card, the simulation runs and returns a probability.
\<close>

theorem partial_hands_are_simulated:
  "simulate_remaining_game ace_evaluator [[], [CardStr ''2h'']]
     (PokerGame 3 [CardStr ''Kh'', CardStr ''7d'']) = Inr 0"
proof -
  let ?st = "PokerGame 3 [CardStr ''Kh'', CardStr ''7d'']"
  note d = first_draw [of ?st 3 "[CardStr ''Kh'', CardStr ''7d'']",
      OF refl PokerGame_fields(1) PokerGame_fields(2)]
  have "simulate_trial ace_evaluator ?st [[], [CardStr ''2h'']] = Inr False"
    by (simp add: simulate_trial_def d)
      (simp add: PokerGame_fields ace_evaluator_def getitem_def)
  then show ?thesis by (simp add: simulate_remaining_game_trial)
qed

end
